theory Spec2Isabelle
  imports Main "HOL-Library.Word"
begin

section \<open>Strings and wire values\<close>

text \<open>
  A JavaScript string is a sequence of UTF-16 code units; \<open>slice\<close>, \<open>trim\<close> and the
  regular expressions of the plugin all work on code units. String literals of the
  source that are ASCII are written with \<open>u16\<close>; the Chinese labels are written out
  as code units.
\<close>

type_synonym jstr = "16 word list"

definition u16 :: "string \<Rightarrow> jstr" where
  "u16 s = map of_char s"

text \<open>
  The white space of \<open>String.prototype.trim\<close> and of the regular-expression class
  \<open>\s\<close>: the ECMAScript WhiteSpace and LineTerminator code points.
\<close>

definition is_space :: "16 word \<Rightarrow> bool" where
  "is_space c \<longleftrightarrow>
     c \<in> {0x9, 0xA, 0xB, 0xC, 0xD, 0x20, 0xA0, 0x1680, 0x2028, 0x2029, 0x202F, 0x205F,
          0x3000, 0xFEFF}
     \<or> (0x2000 \<le> c \<and> c \<le> 0x200A)"

definition trim :: "jstr \<Rightarrow> jstr" where
  "trim s = rev (dropWhile is_space (rev (dropWhile is_space s)))"

text \<open>
  The values the plugin handles as \<open>any\<close>: what \<open>JSON.parse\<close> produces, and
  \<open>undefined\<close> for a property that is not there. A number is carried as the
  string that \<open>String\<close> gives for it (\<open>JNum (u16 ''0'')\<close> for both zeros), which
  determines the number; the plugin looks at a wire number only through its
  truthiness, through \<open>===\<close> and through its conversion to a string. An object is
  the list of its own properties, each name once.
\<close>

datatype json =
    JUndefined
  | JNull
  | JBool bool
  | JNum jstr
  | JStr jstr
  | JArr "json list"
  | JObj "(jstr \<times> json) list"

text \<open>
  Exceptions. \<open>TypeError\<close> is what the language raises on a property read of
  \<open>null\<close>/\<open>undefined\<close> and on a call of something that is not a function;
  \<open>SyntaxError\<close> is what \<open>JSON.parse\<close> raises; \<open>Error msg\<close> stands for every
  other \<open>Error\<close> object (\<open>new Error(msg)\<close>, a rejected HTTP request, a file-system
  error).
\<close>

datatype exn = TypeError | SyntaxError | Error jstr

fun truthy :: "json \<Rightarrow> bool" where
  "truthy JUndefined = False"
| "truthy JNull = False"
| "truthy (JBool b) = b"
| "truthy (JNum n) = (n \<noteq> u16 ''0'' \<and> n \<noteq> u16 ''NaN'')"
| "truthy (JStr s) = (s \<noteq> [])"
| "truthy (JArr xs) = True"
| "truthy (JObj kvs) = True"

text \<open>\<open>a || b\<close> on values that are already computed.\<close>

definition js_or :: "json \<Rightarrow> json \<Rightarrow> json" where
  "js_or a b = (if truthy a then a else b)"

text \<open>
  The property read \<open>x.k\<close>, for the property names this plugin reads from wire values
  (none of them is defined on a prototype): a \<open>TypeError\<close> on \<open>null\<close> and
  \<open>undefined\<close>, the own property of an object, \<open>undefined\<close> otherwise.
\<close>

fun get :: "json \<Rightarrow> jstr \<Rightarrow> exn + json" where
  "get JUndefined k = Inl TypeError"
| "get JNull k = Inl TypeError"
| "get (JObj kvs) k = Inr (case map_of kvs k of None \<Rightarrow> JUndefined | Some v \<Rightarrow> v)"
| "get x k = Inr JUndefined"

text \<open>The optional chain \<open>x?.k\<close>: \<open>undefined\<close> when \<open>x\<close> is nullish. It never throws.\<close>

fun opt_get :: "json \<Rightarrow> jstr \<Rightarrow> json" where
  "opt_get (JObj kvs) k = (case map_of kvs k of None \<Rightarrow> JUndefined | Some v \<Rightarrow> v)"
| "opt_get x k = JUndefined"

text \<open>
  The optional call \<open>x?.trim()\<close>: \<open>undefined\<close> when \<open>x\<close> is nullish, the trimmed
  string when \<open>x\<close> is a string, and a \<open>TypeError\<close> otherwise (\<open>x.trim\<close> is then
  \<open>undefined\<close> or a wire value, neither of which can be called).
\<close>

fun opt_trim :: "json \<Rightarrow> exn + json" where
  "opt_trim JUndefined = Inr JUndefined"
| "opt_trim JNull = Inr JUndefined"
| "opt_trim (JStr s) = Inr (JStr (trim s))"
| "opt_trim x = Inl TypeError"

subsection \<open>Conversion to string\<close>

text \<open>
  \<open>ToString\<close>, as template literals, \<open>Array.prototype.join\<close> and \<open>RegExp.prototype.test\<close>
  apply it. An array is joined with commas, \<open>null\<close> and \<open>undefined\<close> elements
  giving the empty string. An object gives \<open>[object Object]\<close>, unless it has an own
  property \<open>toString\<close>: that property is a wire value, which cannot be called, and
  the fallback \<open>valueOf\<close> does not return a primitive, so the conversion raises a
  \<open>TypeError\<close>.
\<close>

fun intercalate :: "jstr \<Rightarrow> jstr list \<Rightarrow> jstr" where
  "intercalate sep [] = []"
| "intercalate sep [s] = s"
| "intercalate sep (s # t # ss) = s @ sep @ intercalate sep (t # ss)"

fun js_to_string :: "json \<Rightarrow> exn + jstr"
  and elem_strings :: "json list \<Rightarrow> exn + jstr list" where
  "js_to_string JUndefined = Inr (u16 ''undefined'')"
| "js_to_string JNull = Inr (u16 ''null'')"
| "js_to_string (JBool b) = Inr (if b then u16 ''true'' else u16 ''false'')"
| "js_to_string (JNum n) = Inr n"
| "js_to_string (JStr s) = Inr s"
| "js_to_string (JArr xs) =
     (case elem_strings xs of Inl e \<Rightarrow> Inl e | Inr ss \<Rightarrow> Inr (intercalate (u16 '','') ss))"
| "js_to_string (JObj kvs) =
     (if map_of kvs (u16 ''toString'') \<noteq> None then Inl TypeError
      else Inr (u16 ''[object Object]''))"
| "elem_strings [] = Inr []"
| "elem_strings (y # ys) =
     (case (if y = JUndefined \<or> y = JNull then Inr [] else js_to_string y) of
        Inl e \<Rightarrow> Inl e
      | Inr s \<Rightarrow> (case elem_strings ys of Inl e \<Rightarrow> Inl e | Inr r \<Rightarrow> Inr (s # r)))"

text \<open>\<open>xs.join(sep)\<close>: the elements converted in order, \<open>sep\<close> between them.\<close>

definition js_join :: "json list \<Rightarrow> jstr \<Rightarrow> exn + jstr" where
  "js_join xs sep =
     (case elem_strings xs of Inl e \<Rightarrow> Inl e | Inr ss \<Rightarrow> Inr (intercalate sep ss))"

subsection \<open>Sequencing computations that may throw\<close>

definition bindE :: "exn + 'a \<Rightarrow> ('a \<Rightarrow> exn + 'b) \<Rightarrow> exn + 'b" where
  "bindE m f = (case m of Inl e \<Rightarrow> Inl e | Inr x \<Rightarrow> f x)"

text \<open>
  \<open>xs.filter(f)\<close> and \<open>xs.map(f)\<close> with a callback that may throw: the callback runs
  on the elements in order and the first exception ends the traversal.
\<close>

fun js_filter :: "(json \<Rightarrow> exn + bool) \<Rightarrow> json list \<Rightarrow> exn + json list" where
  "js_filter f [] = Inr []"
| "js_filter f (p # ps) =
     bindE (f p) (\<lambda>keep. bindE (js_filter f ps) (\<lambda>r. Inr (if keep then p # r else r)))"

fun js_map :: "(json \<Rightarrow> exn + json) \<Rightarrow> json list \<Rightarrow> exn + json list" where
  "js_map f [] = Inr []"
| "js_map f (p # ps) = bindE (f p) (\<lambda>v. bindE (js_map f ps) (\<lambda>r. Inr (v # r)))"

section \<open>Message codec: \<open>extractMessageContent\<close>\<close>

record MessageContent =
  c_text :: json
  c_mediaPath :: json
  c_mediaType :: json
  c_messageType :: json

text \<open>The labels of the source, as UTF-16 code units.\<close>

definition label_richText :: jstr where
  "label_richText = [0x5B, 0x5BCC, 0x6587, 0x672C, 0x6D88, 0x606F, 0x5D]"

definition label_picture :: jstr where
  "label_picture = [0x5B, 0x56FE, 0x7247, 0x5D]"

definition label_audio :: jstr where
  "label_audio = [0x5B, 0x8BED, 0x97F3, 0x6D88, 0x606F, 0x5D]"

definition label_video :: jstr where
  "label_video = [0x5B, 0x89C6, 0x9891, 0x5D]"

text \<open>The template \<open>[\<dots>: ${name}]\<close> of a file message and its default name.\<close>

definition label_file :: "jstr \<Rightarrow> jstr" where
  "label_file name = [0x5B, 0x6587, 0x4EF6, 0x3A, 0x20] @ name @ [0x5D]"

definition default_fileName :: jstr where
  "default_fileName = [0x6587, 0x4EF6]"

text \<open>The template \<open>[${msgtype}\<dots>]\<close> of an unknown message type.\<close>

definition label_other :: "jstr \<Rightarrow> jstr" where
  "label_other ty = [0x5B] @ ty @ [0x6D88, 0x606F, 0x5D]"

text \<open>
  \<open>parts.filter(\<dots>)\<close> on the value of \<open>data.content?.richText || []\<close>: only an array
  has a \<open>filter\<close> method.
\<close>

fun as_array :: "json \<Rightarrow> exn + json list" where
  "as_array (JArr xs) = Inr xs"
| "as_array x = Inl TypeError"

definition extractMessageContent :: "json \<Rightarrow> exn + MessageContent" where
  "extractMessageContent data =
     bindE (get data (u16 ''msgtype'')) (\<lambda>m.
     let msgtype = js_or m (JStr (u16 ''text'')) in
     if msgtype = JStr (u16 ''text'') then
       bindE (get data (u16 ''text'')) (\<lambda>t.
       bindE (opt_trim (opt_get t (u16 ''content''))) (\<lambda>trimmed.
       Inr \<lparr>c_text = js_or trimmed (JStr []), c_mediaPath = JUndefined,
            c_mediaType = JUndefined, c_messageType = JStr (u16 ''text'')\<rparr>))
     else if msgtype = JStr (u16 ''richText'') then
       bindE (get data (u16 ''content'')) (\<lambda>c.
       bindE (as_array (js_or (opt_get c (u16 ''richText'')) (JArr []))) (\<lambda>parts.
       bindE (js_filter (\<lambda>p. bindE (get p (u16 ''type'')) (\<lambda>ty. Inr (ty = JStr (u16 ''text''))))
                parts) (\<lambda>kept.
       bindE (js_map (\<lambda>p. get p (u16 ''text'')) kept) (\<lambda>texts.
       bindE (js_join texts []) (\<lambda>textParts.
       Inr \<lparr>c_text = js_or (JStr textParts) (JStr label_richText), c_mediaPath = JUndefined,
            c_mediaType = JUndefined, c_messageType = JStr (u16 ''richText'')\<rparr>)))))
     else if msgtype = JStr (u16 ''picture'') then
       bindE (get data (u16 ''content'')) (\<lambda>c.
       Inr \<lparr>c_text = JStr label_picture, c_mediaPath = opt_get c (u16 ''downloadCode''),
            c_mediaType = JStr (u16 ''image''), c_messageType = JStr (u16 ''picture'')\<rparr>)
     else if msgtype = JStr (u16 ''audio'') then
       bindE (get data (u16 ''content'')) (\<lambda>c.
       Inr \<lparr>c_text = js_or (opt_get c (u16 ''recognition'')) (JStr label_audio),
            c_mediaPath = opt_get c (u16 ''downloadCode''),
            c_mediaType = JStr (u16 ''audio''), c_messageType = JStr (u16 ''audio'')\<rparr>)
     else if msgtype = JStr (u16 ''video'') then
       bindE (get data (u16 ''content'')) (\<lambda>c.
       Inr \<lparr>c_text = JStr label_video, c_mediaPath = opt_get c (u16 ''downloadCode''),
            c_mediaType = JStr (u16 ''video''), c_messageType = JStr (u16 ''video'')\<rparr>)
     else if msgtype = JStr (u16 ''file'') then
       bindE (get data (u16 ''content'')) (\<lambda>c.
       bindE (js_to_string (js_or (opt_get c (u16 ''fileName'')) (JStr default_fileName))) (\<lambda>name.
       Inr \<lparr>c_text = JStr (label_file name), c_mediaPath = opt_get c (u16 ''downloadCode''),
            c_mediaType = JStr (u16 ''file''), c_messageType = JStr (u16 ''file'')\<rparr>))
     else
       bindE (get data (u16 ''text'')) (\<lambda>t.
       bindE (opt_trim (opt_get t (u16 ''content''))) (\<lambda>trimmed.
       bindE (if truthy trimmed then Inr trimmed
              else bindE (js_to_string msgtype) (\<lambda>ty. Inr (JStr (label_other ty)))) (\<lambda>txt.
       Inr \<lparr>c_text = txt, c_mediaPath = JUndefined,
            c_mediaType = JUndefined, c_messageType = msgtype\<rparr>))))"

subsection \<open>The wire schema and the normalisation table\<close>

text \<open>
  The vendor's wire format gives every field a type: \<open>msgtype\<close>, \<open>text.content\<close>,
  \<open>content.downloadCode\<close>, \<open>content.recognition\<close> and \<open>content.fileName\<close> are
  strings, \<open>content.richText\<close> is an array of segment objects whose \<open>type\<close> and
  \<open>text\<close> are strings, and any of them may be missing (or \<open>null\<close>).
  \<open>wire_event\<close> says that a parsed payload has this shape.
\<close>

fun absent :: "json \<Rightarrow> bool" where
  "absent JUndefined = True"
| "absent JNull = True"
| "absent x = False"

fun str_or_absent :: "json \<Rightarrow> bool" where
  "str_or_absent (JStr s) = True"
| "str_or_absent x = absent x"

fun is_obj :: "json \<Rightarrow> bool" where
  "is_obj (JObj kvs) = True"
| "is_obj x = False"

definition wire_segment :: "json \<Rightarrow> bool" where
  "wire_segment p \<longleftrightarrow>
     is_obj p \<and> str_or_absent (opt_get p (u16 ''type''))
     \<and> str_or_absent (opt_get p (u16 ''text''))"

fun wire_segments :: "json \<Rightarrow> bool" where
  "wire_segments (JArr ps) = list_all wire_segment ps"
| "wire_segments x = absent x"

definition wire_event :: "json \<Rightarrow> bool" where
  "wire_event ev \<longleftrightarrow>
     is_obj ev \<and> str_or_absent (opt_get ev (u16 ''msgtype''))
     \<and> (let t = opt_get ev (u16 ''text'') in
          absent t \<or> is_obj t \<and> str_or_absent (opt_get t (u16 ''content'')))
     \<and> (let c = opt_get ev (u16 ''content'') in
          absent c \<or> is_obj c \<and> wire_segments (opt_get c (u16 ''richText''))
            \<and> str_or_absent (opt_get c (u16 ''downloadCode''))
            \<and> str_or_absent (opt_get c (u16 ''recognition''))
            \<and> str_or_absent (opt_get c (u16 ''fileName'')))"

text \<open>The string a field carries, empty when the field is missing.\<close>

fun str_of :: "json \<Rightarrow> jstr" where
  "str_of (JStr s) = s"
| "str_of x = []"

fun segments_of :: "json \<Rightarrow> json list" where
  "segments_of (JArr ps) = ps"
| "segments_of x = []"

text \<open>
  The table of the specification (section 4.3), row by row, on the fields of a wire
  event. A missing or empty \<open>msgtype\<close> counts as \<open>text\<close>; a transcript, a file name
  or an original text is present when it is a non-empty string.
\<close>

definition extractContent :: "json \<Rightarrow> MessageContent" where
  "extractContent ev =
     (let ty = (if str_of (opt_get ev (u16 ''msgtype'')) = [] then u16 ''text''
                else str_of (opt_get ev (u16 ''msgtype'')));
          content = opt_get ev (u16 ''content'');
          downloadCode = opt_get content (u16 ''downloadCode'');
          original = trim (str_of (opt_get (opt_get ev (u16 ''text'')) (u16 ''content'')))
      in
      if ty = u16 ''text'' then
        \<lparr>c_text = JStr original, c_mediaPath = JUndefined, c_mediaType = JUndefined,
         c_messageType = JStr ty\<rparr>
      else if ty = u16 ''richText'' then
        (let joined = concat (map (\<lambda>p. str_of (opt_get p (u16 ''text'')))
                        (filter (\<lambda>p. opt_get p (u16 ''type'') = JStr (u16 ''text''))
                           (segments_of (opt_get content (u16 ''richText'')))))
         in \<lparr>c_text = JStr (if joined = [] then label_richText else joined),
              c_mediaPath = JUndefined, c_mediaType = JUndefined, c_messageType = JStr ty\<rparr>)
      else if ty = u16 ''picture'' then
        \<lparr>c_text = JStr label_picture, c_mediaPath = downloadCode,
         c_mediaType = JStr (u16 ''image''), c_messageType = JStr ty\<rparr>
      else if ty = u16 ''audio'' then
        \<lparr>c_text = JStr (if str_of (opt_get content (u16 ''recognition'')) = [] then label_audio
                        else str_of (opt_get content (u16 ''recognition''))),
         c_mediaPath = downloadCode, c_mediaType = JStr (u16 ''audio''),
         c_messageType = JStr ty\<rparr>
      else if ty = u16 ''video'' then
        \<lparr>c_text = JStr label_video, c_mediaPath = downloadCode,
         c_mediaType = JStr (u16 ''video''), c_messageType = JStr ty\<rparr>
      else if ty = u16 ''file'' then
        \<lparr>c_text = JStr (label_file (if str_of (opt_get content (u16 ''fileName'')) = []
                                    then default_fileName
                                    else str_of (opt_get content (u16 ''fileName'')))),
         c_mediaPath = downloadCode, c_mediaType = JStr (u16 ''file''),
         c_messageType = JStr ty\<rparr>
      else
        \<lparr>c_text = JStr (if original = [] then label_other ty else original),
         c_mediaPath = JUndefined, c_mediaType = JUndefined, c_messageType = JStr ty\<rparr>)"

section \<open>The world outside the plugin\<close>

text \<open>
  Everything the plugin does to the outside is an event of a trace: HTTP requests,
  file-system calls, calls of the host runtime and acknowledgments on the stream.
  What the outside answers is given by an environment, a record of functions of the
  number of interactions made so far, so that two calls of the same function may be
  answered differently. Reading the clock counts as an interaction but leaves no
  event.
\<close>

datatype DingTalkMediaType = Image | Voice | Video | File

datatype host_fn =
    ResolveAgentRoute
  | ResolveStorePath
  | ResolveEnvelopeFormatOptions
  | ReadSessionUpdatedAt
  | FormatInboundEnvelope
  | FinalizeInboundContext
  | RecordInboundSession
  | CreateReplyDispatcherWithTyping
  | DispatchReplyFromConfig

datatype event =
    TokenRequest json json
  | DownloadRequest json json jstr
  | MediaGet json
  | WriteFile jstr
  | WebhookPost json json jstr
  | Host host_fn json
  | MarkDispatchIdle
  | ExistsSync jstr
  | Unlink jstr
  | Ack json bool
  | Stat jstr
  | CreateReadStream jstr
  | DestroyStream jstr
  | UploadPost jstr DingTalkMediaType jstr

text \<open>
  The reply of the identity endpoint, at its documented shape: a string and a number
  of seconds. The numeric coercion JavaScript would apply to an \<open>expireIn\<close> of
  another type is not modelled.
\<close>

record token_reply =
  r_accessToken :: jstr
  r_expireIn :: int

record env =
  clock :: "nat \<Rightarrow> int"
  post_token :: "nat \<Rightarrow> json \<Rightarrow> json \<Rightarrow> exn + token_reply"
  post_download :: "nat \<Rightarrow> json \<Rightarrow> json \<Rightarrow> jstr \<Rightarrow> exn + json"
  get_media :: "nat \<Rightarrow> json \<Rightarrow> exn + jstr option"
  tmp_path :: "jstr \<Rightarrow> jstr"
  write_file :: "nat \<Rightarrow> jstr \<Rightarrow> exn + unit"
  post_webhook :: "nat \<Rightarrow> json \<Rightarrow> json \<Rightarrow> jstr \<Rightarrow> exn + json"
  host_call :: "nat \<Rightarrow> host_fn \<Rightarrow> json \<Rightarrow> exn + json"
  host_replies :: "nat \<Rightarrow> json list"
  dispatch_outcome :: "nat \<Rightarrow> exn + unit"
  mark_idle :: "nat \<Rightarrow> exn + unit"
  exists_sync :: "nat \<Rightarrow> jstr \<Rightarrow> bool"
  unlink_sync :: "nat \<Rightarrow> jstr \<Rightarrow> exn + unit"
  stat_size :: "nat \<Rightarrow> jstr \<Rightarrow> exn + nat"
  post_upload :: "nat \<Rightarrow> jstr \<Rightarrow> DingTalkMediaType \<Rightarrow> jstr \<Rightarrow> exn + json"

text \<open>
  The state: the trace, the interaction counter, and the module variables
  \<open>accessToken\<close>, \<open>accessTokenExpiry\<close> and \<open>runtime\<close> (here only whether it is set).
\<close>

record world =
  trace :: "event list"
  tick :: nat
  accessToken :: "jstr option"
  accessTokenExpiry :: int
  runtime :: bool

type_synonym 'a action = "world \<Rightarrow> (exn + 'a) \<times> world"

definition ret :: "'a \<Rightarrow> 'a action" where
  "ret x = (\<lambda>w. (Inr x, w))"

definition throw :: "exn \<Rightarrow> 'a action" where
  "throw e = (\<lambda>w. (Inl e, w))"

definition lift :: "exn + 'a \<Rightarrow> 'a action" where
  "lift r = (\<lambda>w. (r, w))"

definition bindA :: "'a action \<Rightarrow> ('a \<Rightarrow> 'b action) \<Rightarrow> 'b action" where
  "bindA m f = (\<lambda>w. case m w of (Inl e, w') \<Rightarrow> (Inl e, w') | (Inr x, w') \<Rightarrow> f x w')"

text \<open>\<open>try { m } catch (e) { h e }\<close>\<close>

definition try_catch :: "'a action \<Rightarrow> (exn \<Rightarrow> 'a action) \<Rightarrow> 'a action" where
  "try_catch m h = (\<lambda>w. case m w of (Inl e, w') \<Rightarrow> h e w' | (Inr x, w') \<Rightarrow> (Inr x, w'))"

text \<open>
  \<open>try { m } finally { f }\<close>: the finaliser runs on both outcomes; the outcome of
  \<open>m\<close> stands unless the finaliser itself throws.
\<close>

definition try_finally :: "'a action \<Rightarrow> unit action \<Rightarrow> 'a action" where
  "try_finally m f =
     (\<lambda>w. case m w of (r, w') \<Rightarrow> (case f w' of (Inl e, w'') \<Rightarrow> (Inl e, w'') | (Inr u, w'') \<Rightarrow> (r, w'')))"

text \<open>An interaction: the event is appended, the counter advances, the environment answers.\<close>

definition call :: "event \<Rightarrow> (nat \<Rightarrow> exn + 'a) \<Rightarrow> 'a action" where
  "call ev answer =
     (\<lambda>w. (answer (tick w), w\<lparr>trace := trace w @ [ev], tick := Suc (tick w)\<rparr>))"

text \<open>\<open>Date.now()\<close>\<close>

definition now :: "env \<Rightarrow> int action" where
  "now E = (\<lambda>w. (Inr (clock E (tick w)), w\<lparr>tick := Suc (tick w)\<rparr>))"

section \<open>Token cache: \<open>getAccessToken\<close>\<close>

record config =
  clientId :: json
  clientSecret :: json
  robotCode :: json
  showThinking :: json

definition getAccessToken :: "env \<Rightarrow> config \<Rightarrow> jstr action" where
  "getAccessToken E cfg =
     bindA (now E) (\<lambda>t w.
       case (case accessToken w of
               None \<Rightarrow> None
             | Some tok \<Rightarrow> if tok \<noteq> [] \<and> accessTokenExpiry w > t + 60000 then Some tok else None) of
         Some tok \<Rightarrow> (Inr tok, w)
       | None \<Rightarrow>
           bindA (call (TokenRequest (clientId cfg) (clientSecret cfg))
                    (\<lambda>k. post_token E k (clientId cfg) (clientSecret cfg)))
             (\<lambda>response w'.
                (Inr (r_accessToken response),
                 w'\<lparr>accessToken := Some (r_accessToken response),
                    accessTokenExpiry := t + r_expireIn response * 1000\<rparr>)) w)"

section \<open>Media transfer\<close>

text \<open>
  The decimal digits of a time value, as a template literal prints \<open>Date.now()\<close>:
  a time value is an integer of magnitude at most \<open>8.64 * 10^15\<close>, below \<open>2^53\<close>,
  and \<open>String\<close> prints every digit of such an integer.
\<close>

fun digit :: "nat \<Rightarrow> 16 word" where
  "digit n = of_nat (48 + n mod 10)"

fun decimal :: "nat \<Rightarrow> jstr" where
  "decimal n = (if n < 10 then [digit n] else decimal (n div 10) @ [digit n])"

definition time_to_string :: "int \<Rightarrow> jstr" where
  "time_to_string t = (if t < 0 then 0x2D # decimal (nat (- t)) else decimal (nat t))"

text \<open>\<open>s.split(c)\<close> for a one-character separator.\<close>

fun split_on :: "16 word \<Rightarrow> jstr \<Rightarrow> jstr list" where
  "split_on c [] = [[]]"
| "split_on c (x # xs) =
     (if x = c then [] # split_on c xs
      else (case split_on c xs of [] \<Rightarrow> [[x]] | y # ys \<Rightarrow> (x # y) # ys))"

text \<open>\<open>contentType.split('/')[1]?.split(';')[0] || 'bin'\<close>\<close>

definition extension :: "jstr \<Rightarrow> jstr" where
  "extension contentType =
     (case split_on 0x2F contentType of
        a # b # rest \<Rightarrow>
          (case split_on 0x3B b of
             [] \<Rightarrow> u16 ''bin''
           | e # es \<Rightarrow> if e = [] then u16 ''bin'' else e)
      | other \<Rightarrow> u16 ''bin'')"

text \<open>\<open>mediaResponse.headers['content-type'] || 'application/octet-stream'\<close>\<close>

definition content_type_of :: "jstr option \<Rightarrow> jstr" where
  "content_type_of header =
     (case header of
        None \<Rightarrow> u16 ''application/octet-stream''
      | Some h \<Rightarrow> if h = [] then u16 ''application/octet-stream'' else h)"

record media =
  path :: jstr
  mimeType :: jstr

definition downloadMedia_try :: "env \<Rightarrow> config \<Rightarrow> json \<Rightarrow> media option action" where
  "downloadMedia_try E cfg downloadCode =
     bindA (getAccessToken E cfg) (\<lambda>token.
     bindA (call (DownloadRequest downloadCode (robotCode cfg) token)
              (\<lambda>k. post_download E k downloadCode (robotCode cfg) token)) (\<lambda>response_data.
     let downloadUrl = opt_get response_data (u16 ''downloadUrl'') in
     if \<not> truthy downloadUrl then ret None
     else
       bindA (call (MediaGet downloadUrl) (\<lambda>k. get_media E k downloadUrl)) (\<lambda>header.
       let contentType = content_type_of header;
           ext = extension contentType
       in
       bindA (now E) (\<lambda>t.
       let tempPath = tmp_path E (u16 ''dingtalk_'' @ time_to_string t @ u16 ''.'' @ ext) in
       bindA (call (WriteFile tempPath) (\<lambda>k. write_file E k tempPath)) (\<lambda>u.
       ret (Some \<lparr>path = tempPath, mimeType = contentType\<rparr>))))))"

definition downloadMedia :: "env \<Rightarrow> config \<Rightarrow> json \<Rightarrow> media option action" where
  "downloadMedia E cfg downloadCode =
     try_catch (downloadMedia_try E cfg downloadCode) (\<lambda>err. ret None)"

definition FILE_SIZE_LIMITS :: "DingTalkMediaType \<Rightarrow> nat" where
  "FILE_SIZE_LIMITS mediaType =
     (case mediaType of
        Image \<Rightarrow> 20 * 1024 * 1024
      | Voice \<Rightarrow> 2 * 1024 * 1024
      | Video \<Rightarrow> 20 * 1024 * 1024
      | File \<Rightarrow> 20 * 1024 * 1024)"

text \<open>
  \<open>uploadMedia\<close> returns the media identifier or \<open>null\<close> (\<open>JNull\<close>). The token
  accessor is a parameter, as in the source. The variable \<open>fileStream\<close> is \<open>null\<close>
  until the stream is created, after the size gate, so the \<open>finally\<close> clause
  destroys the stream exactly on the paths that continue from there; the \<open>catch\<close>
  clause only logs.
\<close>

definition uploadMedia ::
  "env \<Rightarrow> config \<Rightarrow> jstr \<Rightarrow> DingTalkMediaType \<Rightarrow> (config \<Rightarrow> jstr action) \<Rightarrow> json action" where
  "uploadMedia E cfg mediaPath mediaType getToken =
     try_catch
       (bindA (getToken cfg) (\<lambda>token.
        bindA (call (Stat mediaPath) (\<lambda>k. stat_size E k mediaPath)) (\<lambda>stats_size.
        let sizeLimit = FILE_SIZE_LIMITS mediaType in
        if stats_size > sizeLimit then ret JNull
        else
          bindA (call (CreateReadStream mediaPath) (\<lambda>k. Inr ())) (\<lambda>u.
          try_finally
            (try_catch
               (bindA (call (UploadPost token mediaType mediaPath)
                         (\<lambda>k. post_upload E k token mediaType mediaPath)) (\<lambda>response_data.
                if opt_get response_data (u16 ''errcode'') = JNum (u16 ''0'')
                   \<and> truthy (opt_get response_data (u16 ''media_id''))
                then ret (opt_get response_data (u16 ''media_id''))
                else ret JNull))
               (\<lambda>err. ret JNull))
            (call (DestroyStream mediaPath) (\<lambda>k. Inr ()))))))
       (\<lambda>err. ret JNull)"

section \<open>Outbound messages\<close>

record options =
  atUserId :: json
  useMarkdown :: json
  title :: json

text \<open>The fallback title of a markdown message, \<open>Clawdbot\<close> followed by two Chinese characters.\<close>

definition fallback_title :: jstr where
  "fallback_title = u16 ''Clawdbot '' @ [0x6D88, 0x606F]"

text \<open>The \<open>at\<close> property both senders add when \<open>options.atUserId\<close> is truthy.\<close>

definition at_part :: "options \<Rightarrow> (jstr \<times> json) list" where
  "at_part opts =
     (if truthy (atUserId opts)
      then [(u16 ''at'', JObj [(u16 ''atUserIds'', JArr [atUserId opts]),
                               (u16 ''isAtAll'', JBool False)])]
      else [])"

definition sendTextMessage :: "env \<Rightarrow> config \<Rightarrow> json \<Rightarrow> json \<Rightarrow> options \<Rightarrow> json action" where
  "sendTextMessage E cfg sessionWebhook txt opts =
     bindA (getAccessToken E cfg) (\<lambda>token.
     let body = JObj ([(u16 ''msgtype'', JStr (u16 ''text'')),
                       (u16 ''text'', JObj [(u16 ''content'', txt)])] @ at_part opts)
     in call (WebhookPost sessionWebhook body token)
          (\<lambda>k. post_webhook E k sessionWebhook body token))"

definition sendMarkdownMessage ::
  "env \<Rightarrow> config \<Rightarrow> json \<Rightarrow> json \<Rightarrow> json \<Rightarrow> options \<Rightarrow> json action" where
  "sendMarkdownMessage E cfg sessionWebhook ttl markdown opts =
     bindA (getAccessToken E cfg) (\<lambda>token.
     bindA (lift (if truthy (atUserId opts)
                  then bindE (js_to_string markdown) (\<lambda>m.
                       bindE (js_to_string (atUserId opts)) (\<lambda>a.
                       Inr (JStr (m @ u16 '' @'' @ a))))
                  else Inr markdown)) (\<lambda>finalText.
     let body = JObj ([(u16 ''msgtype'', JStr (u16 ''markdown'')),
                       (u16 ''markdown'',
                        JObj [(u16 ''title'', js_or ttl (JStr fallback_title)),
                              (u16 ''text'', finalText)])] @ at_part opts)
     in call (WebhookPost sessionWebhook body token)
          (\<lambda>k. post_webhook E k sessionWebhook body token)))"

text \<open>
  The regular expression \<open>/^[#*>-]|[*_`#\[\]]/\<close>: one of \<open># * > -\<close> at the start,
  or one of \<open>* _ ` # [ ]\<close> anywhere.
\<close>

definition leading_marker :: "16 word \<Rightarrow> bool" where
  "leading_marker c \<longleftrightarrow> c \<in> {0x23, 0x2A, 0x3E, 0x2D}"

definition inline_marker :: "16 word \<Rightarrow> bool" where
  "inline_marker c \<longleftrightarrow> c \<in> {0x2A, 0x5F, 0x60, 0x23, 0x5B, 0x5D}"

definition markdown_regex :: "jstr \<Rightarrow> bool" where
  "markdown_regex s \<longleftrightarrow>
     (case s of [] \<Rightarrow> False | c # cs \<Rightarrow> leading_marker c) \<or> list_ex inline_marker s"

text \<open>\<open>regex.test(x)\<close> converts its argument to a string first.\<close>

definition regex_test :: "json \<Rightarrow> exn + bool" where
  "regex_test x = bindE (js_to_string x) (\<lambda>s. Inr (markdown_regex s))"

text \<open>
  \<open>x.includes('\n')\<close>: a string has the method, an array has one too (it looks for
  an element equal to the argument), nothing else does.
\<close>

fun includes_newline :: "json \<Rightarrow> exn + bool" where
  "includes_newline (JStr s) = Inr (0xA \<in> set s)"
| "includes_newline (JArr xs) = Inr (JStr [0xA] \<in> set xs)"
| "includes_newline x = Inl TypeError"

text \<open>
  The character class \<open>[#*\s\->]\<close> of the title pattern, and
  \<open>text.split('\n')[0].replace(/^[#*\s\->]+/, '').slice(0, 20)\<close>. Only a string has
  \<open>split\<close>.
\<close>

definition title_marker :: "16 word \<Rightarrow> bool" where
  "title_marker c \<longleftrightarrow> c \<in> {0x23, 0x2A, 0x2D, 0x3E} \<or> is_space c"

definition first_line :: "jstr \<Rightarrow> jstr" where
  "first_line s = (case split_on 0xA s of [] \<Rightarrow> [] | l # ls \<Rightarrow> l)"

fun derived_title :: "json \<Rightarrow> exn + jstr" where
  "derived_title (JStr s) = Inr (take 20 (dropWhile title_marker (first_line s)))"
| "derived_title x = Inl TypeError"

definition sendMessage :: "env \<Rightarrow> config \<Rightarrow> json \<Rightarrow> json \<Rightarrow> options \<Rightarrow> json action" where
  "sendMessage E cfg sessionWebhook txt opts =
     bindA (lift (bindE (regex_test txt) (\<lambda>matches.
                  if matches then Inr True else includes_newline txt))) (\<lambda>hasMarkdownFeatures.
     let useMarkdown_flag = useMarkdown opts \<noteq> JBool False
                            \<and> (truthy (useMarkdown opts) \<or> hasMarkdownFeatures)
     in
     if useMarkdown_flag then
       bindA (lift (if truthy (title opts) then Inr (title opts)
                    else bindE (derived_title txt) (\<lambda>d.
                         Inr (js_or (JStr d) (JStr fallback_title))))) (\<lambda>ttl.
       sendMarkdownMessage E cfg sessionWebhook ttl txt opts)
     else sendTextMessage E cfg sessionWebhook txt opts)"

section \<open>Inbound handler: \<open>handleDingTalkMessage\<close>\<close>

definition getRuntime :: "unit action" where
  "getRuntime = (\<lambda>w. if runtime w then (Inr (), w)
                      else (Inl (Error (u16 ''DingTalk runtime not initialized'')), w))"

text \<open>
  Modelled from the spec: the host runtime is not part of the repository. A call of a
  host function is an interaction that may throw (routing and persistence failures,
  section 4.4), and so is the call of \<open>markDispatchIdle\<close>. During
  \<open>dispatchReplyFromConfig\<close> the host passes zero or more reply payloads to the
  \<open>deliver\<close> callback, one after the other, and then returns or throws.
\<close>

definition host :: "env \<Rightarrow> host_fn \<Rightarrow> json \<Rightarrow> json action" where
  "host E f args = call (Host f args) (\<lambda>k. host_call E k f args)"

definition markDispatchIdle :: "env \<Rightarrow> unit action" where
  "markDispatchIdle E = call MarkDispatchIdle (\<lambda>k. mark_idle E k)"

definition thinking_text :: jstr where
  "thinking_text = [0xD83E, 0xDD14, 0x20, 0x6B63, 0x5728, 0x601D, 0x8003, 0x2E, 0x2E, 0x2E]"

record params =
  cfg :: json
  accountId :: json
  data :: json
  sessionWebhook :: json
  log_info :: bool
  dingtalkConfig :: config

text \<open>
  \<open>x.slice(0, 50)\<close> in the log line: strings and arrays have \<open>slice\<close>. The line is
  built only when \<open>log?.info\<close> is there, and building it may throw.
\<close>

fun slice50 :: "json \<Rightarrow> exn + json" where
  "slice50 (JStr s) = Inr (JStr (take 50 s))"
| "slice50 (JArr xs) = Inr (JArr (take 50 xs))"
| "slice50 x = Inl TypeError"

definition inbound_log_line :: "json \<Rightarrow> json \<Rightarrow> exn + jstr" where
  "inbound_log_line senderName txt =
     bindE (js_to_string senderName) (\<lambda>n.
     bindE (slice50 txt) (\<lambda>cut.
     bindE (js_to_string cut) (\<lambda>c.
     Inr (u16 ''[DingTalk] Inbound: from='' @ n @ u16 '' text=\"'' @ c @ u16 ''...\"''))))"

text \<open>
  The \<open>deliver\<close> callback registered with the reply dispatcher. It reports
  \<open>{ ok: true }\<close> or \<open>{ ok: false, error }\<close> and never throws.
\<close>

definition deliver :: "env \<Rightarrow> config \<Rightarrow> json \<Rightarrow> bool \<Rightarrow> json \<Rightarrow> json \<Rightarrow> bool action" where
  "deliver E dcfg webhook isDirect senderId payload =
     try_catch
       (bindA (lift (get payload (u16 ''markdown''))) (\<lambda>md.
        bindA (lift (if truthy md then Inr md else get payload (u16 ''text''))) (\<lambda>textToSend.
        if \<not> truthy textToSend then ret True
        else
          bindA (lift (if truthy md then Inr True else regex_test textToSend)) (\<lambda>isMarkdown.
          bindA (sendMessage E dcfg webhook textToSend
                   \<lparr>atUserId = (if \<not> isDirect then senderId else JNull),
                    useMarkdown = JBool isMarkdown, title = JUndefined\<rparr>) (\<lambda>u.
          ret True)))))
       (\<lambda>err. ret False)"

fun deliver_all :: "(json \<Rightarrow> bool action) \<Rightarrow> json list \<Rightarrow> unit action" where
  "deliver_all d [] = ret ()"
| "deliver_all d (p # ps) = bindA (d p) (\<lambda>ok. deliver_all d ps)"

definition dispatchReplyFromConfig ::
  "env \<Rightarrow> (json \<Rightarrow> bool action) \<Rightarrow> json \<Rightarrow> unit action" where
  "dispatchReplyFromConfig E d args =
     bindA (call (Host DispatchReplyFromConfig args) (\<lambda>k. Inr (host_replies E k))) (\<lambda>payloads.
     bindA (deliver_all d payloads) (\<lambda>u w.
     (dispatch_outcome E (tick w), w\<lparr>tick := Suc (tick w)\<rparr>)))"

text \<open>The \<open>finally\<close> clause of the handler.\<close>

definition cleanup :: "env \<Rightarrow> jstr option \<Rightarrow> unit action" where
  "cleanup E mediaPath =
     bindA (markDispatchIdle E) (\<lambda>u.
     case mediaPath of
       None \<Rightarrow> ret ()
     | Some p \<Rightarrow>
         if p = [] then ret ()
         else bindA (call (ExistsSync p) (\<lambda>k. Inr (exists_sync E k p))) (\<lambda>there.
              if there
              then try_catch (call (Unlink p) (\<lambda>k. unlink_sync E k p)) (\<lambda>err. ret ())
              else ret ()))"

text \<open>The values the handler derives from the event before it talks to the host.\<close>

record sender =
  isDirect :: bool
  senderId :: json
  senderName :: json
  groupId :: json
  groupName :: json

definition sender_of :: "json \<Rightarrow> sender" where
  "sender_of d =
     \<lparr>isDirect = (opt_get d (u16 ''conversationType'') = JStr (u16 ''1'')),
      senderId = js_or (opt_get d (u16 ''senderStaffId'')) (opt_get d (u16 ''senderId'')),
      senderName = js_or (opt_get d (u16 ''senderNick'')) (JStr (u16 ''Unknown'')),
      groupId = opt_get d (u16 ''conversationId''),
      groupName = js_or (opt_get d (u16 ''conversationTitle'')) (JStr (u16 ''Group''))\<rparr>"

definition opt_str :: "jstr option \<Rightarrow> json" where
  "opt_str x = (case x of None \<Rightarrow> JUndefined | Some s \<Rightarrow> JStr s)"

text \<open>
  Steps 3 to 6 of the handler: route, envelope, session record, the thinking message
  and the reply dispatcher. The result is the argument of \<open>dispatchReplyFromConfig\<close>.
\<close>

definition prepare ::
  "env \<Rightarrow> params \<Rightarrow> MessageContent \<Rightarrow> sender \<Rightarrow> jstr option \<Rightarrow> jstr option \<Rightarrow> json action" where
  "prepare E ps content s mediaPath mediaType =
     (let chat = JStr (if isDirect s then u16 ''direct'' else u16 ''group'');
          dingtalk = JStr (u16 ''dingtalk'')
      in
      bindA (host E ResolveAgentRoute
               (JObj [(u16 ''cfg'', cfg ps), (u16 ''channel'', dingtalk),
                      (u16 ''accountId'', accountId ps),
                      (u16 ''peer'',
                       JObj [(u16 ''kind'', JStr (if isDirect s then u16 ''dm'' else u16 ''group'')),
                             (u16 ''id'', if isDirect s then senderId s else groupId s)])])) (\<lambda>route.
      bindA (lift (get (cfg ps) (u16 ''session''))) (\<lambda>session.
      bindA (lift (get route (u16 ''agentId''))) (\<lambda>agentId.
      bindA (host E ResolveStorePath
               (JArr [opt_get session (u16 ''store''), JObj [(u16 ''agentId'', agentId)]])) (\<lambda>storePath.
      bindA (host E ResolveEnvelopeFormatOptions (cfg ps)) (\<lambda>envelopeOptions.
      bindA (host E ReadSessionUpdatedAt
               (JObj [(u16 ''storePath'', storePath),
                      (u16 ''sessionKey'', opt_get route (u16 ''sessionKey''))])) (\<lambda>previousTimestamp.
      bindA (lift (if isDirect s
                   then bindE (js_to_string (senderName s)) (\<lambda>n.
                        bindE (js_to_string (senderId s)) (\<lambda>i.
                        Inr (n @ u16 '' ('' @ i @ u16 '')'')))
                   else bindE (js_to_string (groupName s)) (\<lambda>g.
                        bindE (js_to_string (senderName s)) (\<lambda>n.
                        Inr (g @ u16 '' - '' @ n))))) (\<lambda>fromLabel.
      bindA (host E FormatInboundEnvelope
               (JObj [(u16 ''channel'', JStr (u16 ''DingTalk'')), (u16 ''from'', JStr fromLabel),
                      (u16 ''timestamp'', opt_get (data ps) (u16 ''createAt'')),
                      (u16 ''body'', c_text content), (u16 ''chatType'', chat),
                      (u16 ''sender'', JObj [(u16 ''name'', senderName s), (u16 ''id'', senderId s)]),
                      (u16 ''previousTimestamp'', previousTimestamp),
                      (u16 ''envelope'', envelopeOptions)])) (\<lambda>body.
      bindA (lift (if isDirect s
                   then bindE (js_to_string (senderId s)) (\<lambda>i. Inr (u16 ''dingtalk:'' @ i))
                   else bindE (js_to_string (groupId s)) (\<lambda>g.
                        Inr (u16 ''dingtalk:group:'' @ g)))) (\<lambda>to.
      bindA (host E FinalizeInboundContext
               (JObj [(u16 ''Body'', body), (u16 ''RawBody'', c_text content),
                      (u16 ''CommandBody'', c_text content),
                      (u16 ''From'', JStr to), (u16 ''To'', JStr to),
                      (u16 ''SessionKey'', opt_get route (u16 ''sessionKey'')),
                      (u16 ''AccountId'', accountId ps), (u16 ''ChatType'', chat),
                      (u16 ''ConversationLabel'', JStr fromLabel),
                      (u16 ''GroupSubject'', if isDirect s then JUndefined else groupName s),
                      (u16 ''SenderName'', senderName s), (u16 ''SenderId'', senderId s),
                      (u16 ''Provider'', dingtalk), (u16 ''Surface'', dingtalk),
                      (u16 ''MessageSid'', opt_get (data ps) (u16 ''msgId'')),
                      (u16 ''Timestamp'', opt_get (data ps) (u16 ''createAt'')),
                      (u16 ''MediaPath'', opt_str mediaPath),
                      (u16 ''MediaType'', opt_str mediaType),
                      (u16 ''MediaUrl'', opt_str mediaPath),
                      (u16 ''CommandAuthorized'', JBool True),
                      (u16 ''OriginatingChannel'', dingtalk),
                      (u16 ''OriginatingTo'', JStr to)])) (\<lambda>ctx.
      bindA (lift (get ctx (u16 ''SessionKey''))) (\<lambda>ctxKey.
      bindA (host E RecordInboundSession
               (JObj [(u16 ''storePath'', storePath),
                      (u16 ''sessionKey'', js_or ctxKey (opt_get route (u16 ''sessionKey''))),
                      (u16 ''ctx'', ctx),
                      (u16 ''updateLastRoute'',
                       if isDirect s
                       then JObj [(u16 ''sessionKey'', opt_get route (u16 ''mainSessionKey'')),
                                  (u16 ''channel'', dingtalk), (u16 ''to'', senderId s),
                                  (u16 ''accountId'', accountId ps)]
                       else JUndefined)])) (\<lambda>recorded.
      bindA (lift (if log_info ps
                   then bindE (inbound_log_line (senderName s) (c_text content)) (\<lambda>l. Inr ())
                   else Inr ())) (\<lambda>logged.
      bindA (if showThinking (dingtalkConfig ps) \<noteq> JBool False
             then try_catch
                    (bindA (sendTextMessage E (dingtalkConfig ps) (sessionWebhook ps)
                              (JStr thinking_text)
                              \<lparr>atUserId = (if \<not> isDirect s then senderId s else JNull),
                               useMarkdown = JUndefined, title = JUndefined\<rparr>) (\<lambda>r. ret ()))
                    (\<lambda>err. ret ())
             else ret ()) (\<lambda>thought.
      bindA (host E CreateReplyDispatcherWithTyping
               (JObj [(u16 ''responsePrefix'', JStr [])])) (\<lambda>created.
      bindA (lift (get created (u16 ''dispatcher''))) (\<lambda>dispatcher.
      ret (JObj [(u16 ''ctx'', ctx), (u16 ''cfg'', cfg ps), (u16 ''dispatcher'', dispatcher),
                 (u16 ''replyOptions'', opt_get created (u16 ''replyOptions''))]))))))))))))))))))"

text \<open>
  Steps 7 and 8, with what step 2 produced: prepare, then dispatch inside
  \<open>try \<dots> finally\<close>. \<open>mediaPath\<close> and \<open>mediaType\<close> are set only when the download
  returned a file.
\<close>

definition after_download ::
  "env \<Rightarrow> params \<Rightarrow> MessageContent \<Rightarrow> media option \<Rightarrow> unit action" where
  "after_download E ps content media =
     bindA (prepare E ps content (sender_of (data ps)) (map_option path media)
              (map_option mimeType media)) (\<lambda>args.
     try_finally
       (dispatchReplyFromConfig E
          (deliver E (dingtalkConfig ps) (sessionWebhook ps) (isDirect (sender_of (data ps)))
             (senderId (sender_of (data ps)))) args)
       (cleanup E (map_option path media)))"

definition handleDingTalkMessage :: "env \<Rightarrow> params \<Rightarrow> unit action" where
  "handleDingTalkMessage E ps =
     bindA getRuntime (\<lambda>rt.
     bindA (lift (extractMessageContent (data ps))) (\<lambda>content.
     if \<not> truthy (c_text content) then ret ()
     else
       bindA (if truthy (c_mediaPath content) \<and> truthy (robotCode (dingtalkConfig ps))
              then downloadMedia E (dingtalkConfig ps) (c_mediaPath content)
              else ret None)
         (after_download E ps content)))"

section \<open>Stream listener\<close>

text \<open>
  A frame as the callback sees it: \<open>res.headers?.messageId\<close>, and the outcome of
  \<open>JSON.parse(res.data)\<close>, a value or a \<open>SyntaxError\<close>. Sending an acknowledgment is
  an event on the vendor transport.
\<close>

record frame =
  messageId :: json
  parsed :: "exn + json"

definition socketCallBackResponse :: "json \<Rightarrow> bool \<Rightarrow> unit action" where
  "socketCallBackResponse mid success = call (Ack mid success) (\<lambda>k. Inr ())"

text \<open>
  The handling of a frame, which is the \<open>try\<close> block up to the acknowledgment: parse
  the body, read \<open>data.sessionWebhook\<close>, run the handler.
\<close>

definition frame_handling :: "env \<Rightarrow> json \<Rightarrow> json \<Rightarrow> bool \<Rightarrow> config \<Rightarrow> frame \<Rightarrow> unit action" where
  "frame_handling E c account_id has_log dcfg res =
     bindA (lift (parsed res)) (\<lambda>d.
     bindA (lift (get d (u16 ''sessionWebhook''))) (\<lambda>hook.
     handleDingTalkMessage E
       \<lparr>cfg = c, accountId = account_id, data = d, sessionWebhook = hook,
        log_info = has_log, dingtalkConfig = dcfg\<rparr>))"

definition listener :: "env \<Rightarrow> json \<Rightarrow> json \<Rightarrow> bool \<Rightarrow> config \<Rightarrow> frame \<Rightarrow> unit action" where
  "listener E c account_id has_log dcfg res =
     try_catch
       (bindA (frame_handling E c account_id has_log dcfg res) (\<lambda>u.
        if truthy (messageId res) then socketCallBackResponse (messageId res) True
        else ret ()))
       (\<lambda>error.
        if truthy (messageId res) then socketCallBackResponse (messageId res) False
        else ret ())"

text \<open>
  The frames of a connection handled one after the other. A frame is handled only if
  the callback returned for all frames before it.
\<close>

fun listen :: "(frame \<Rightarrow> unit action) \<Rightarrow> frame list \<Rightarrow> unit action" where
  "listen callback [] = ret ()"
| "listen callback (f # fs) = bindA (callback f) (\<lambda>u. listen callback fs)"

section \<open>Example inputs\<close>

text \<open>
  A rich-text event with two text segments around a mention, and an event without a
  \<open>msgtype\<close> whose text is padded with blanks.
\<close>

definition example_richText :: json where
  "example_richText =
     JObj [(u16 ''msgtype'', JStr (u16 ''richText'')),
           (u16 ''content'',
            JObj [(u16 ''richText'',
                   JArr [JObj [(u16 ''type'', JStr (u16 ''text'')), (u16 ''text'', JStr (u16 ''ab''))],
                         JObj [(u16 ''type'', JStr (u16 ''at'')), (u16 ''text'', JStr (u16 ''@x''))],
                         JObj [(u16 ''type'', JStr (u16 ''text'')), (u16 ''text'', JStr (u16 ''cd''))]])])]"

definition example_untyped :: "(jstr \<times> json) list" where
  "example_untyped =
     [(u16 ''text'', JObj [(u16 ''content'', JStr (u16 '' hi ''))]),
      (u16 ''conversationType'', JStr (u16 ''1''))]"

text \<open>
  An environment in which the identity endpoint issues a token for two hours, the
  download endpoint is unreachable and everything else succeeds; a configuration;
  and two states of the plugin, one with nothing cached and one with a cached token.
\<close>

definition example_env :: env where
  "example_env =
     \<lparr>clock = (\<lambda>k. 1000000 + int k),
      post_token = (\<lambda>k appKey appSecret. Inr \<lparr>r_accessToken = u16 ''tok'', r_expireIn = 7200\<rparr>),
      post_download = (\<lambda>k code robot token. Inl (Error (u16 ''Network Error''))),
      get_media = (\<lambda>k url. Inr (Some (u16 ''image/png''))),
      tmp_path = (\<lambda>name. u16 ''/tmp/'' @ name),
      write_file = (\<lambda>k p. Inr ()),
      post_webhook = (\<lambda>k url body token. Inr (JObj [])),
      host_call = (\<lambda>k f args. Inr (JObj [(u16 ''agentId'', JStr (u16 ''main'')),
                                         (u16 ''sessionKey'', JStr (u16 ''s1'')),
                                         (u16 ''dispatcher'', JObj [])])),
      host_replies = (\<lambda>k. [JObj [(u16 ''text'', JStr (u16 ''hello''))]]),
      dispatch_outcome = (\<lambda>k. Inr ()),
      mark_idle = (\<lambda>k. Inr ()),
      exists_sync = (\<lambda>k p. True),
      unlink_sync = (\<lambda>k p. Inr ()),
      stat_size = (\<lambda>k p. Inr 2097152),
      post_upload = (\<lambda>k token ty p. Inr (JObj [(u16 ''errcode'', JNum (u16 ''0'')),
                                                 (u16 ''media_id'', JStr (u16 ''m1''))]))\<rparr>"

definition example_config :: config where
  "example_config = \<lparr>clientId = JStr (u16 ''id''), clientSecret = JStr (u16 ''secret''),
                      robotCode = JStr (u16 ''robot''), showThinking = JUndefined\<rparr>"

definition empty_world :: world where
  "empty_world =
     \<lparr>trace = [], tick = 0, accessToken = None, accessTokenExpiry = 0, runtime = True\<rparr>"

definition cached_world :: world where
  "cached_world = \<lparr>trace = [], tick = 0, accessToken = Some (u16 ''old''),
                    accessTokenExpiry = 1060001, runtime = True\<rparr>"

text \<open>The same environment with an identity endpoint whose tokens live thirty seconds.\<close>

definition short_lived_env :: env where
  "short_lived_env = example_env\<lparr>post_token :=
      (\<lambda>k appKey appSecret. Inr \<lparr>r_accessToken = u16 ''tok'', r_expireIn = 30\<rparr>)\<rparr>"

text \<open>The same environment again, with a file one byte above the ceiling for voice.\<close>

definition over_limit_env :: env where
  "over_limit_env = example_env\<lparr>stat_size := (\<lambda>k p. Inr 2097153)\<rparr>"

text \<open>The state after a first token has been fetched in the example environment.\<close>

definition token_world :: world where
  "token_world =
     \<lparr>trace = [TokenRequest (JStr (u16 ''id'')) (JStr (u16 ''secret''))], tick = 2,
      accessToken = Some (u16 ''tok''), accessTokenExpiry = 8200000, runtime = True\<rparr>"

definition no_options :: options where
  "no_options = \<lparr>atUserId = JUndefined, useMarkdown = JUndefined, title = JUndefined\<rparr>"

definition example_hook :: json where
  "example_hook = JStr (u16 ''https://hook'')"

section \<open>The outbound heuristic, in the words of the specification\<close>

text \<open>
  Text has markdown features when it contains a newline, or starts with one of
  \<open># * > -\<close>, or contains any of \<open>* _ ` # [ ]\<close>.
\<close>

definition markdown_features :: "jstr \<Rightarrow> bool" where
  "markdown_features s \<longleftrightarrow>
     0xA \<in> set s
     \<or> (s \<noteq> [] \<and> hd s \<in> {0x23, 0x2A, 0x3E, 0x2D})
     \<or> (\<exists>c \<in> set s. c \<in> {0x2A, 0x5F, 0x60, 0x23, 0x5B, 0x5D})"

text \<open>
  The first line of the text without its leading markers, and the title of a markdown
  message: the caller's title when there is one, else the stripped first line cut to
  20 code units, else the fallback.
\<close>

definition stripped_first_line :: "jstr \<Rightarrow> jstr" where
  "stripped_first_line s = dropWhile title_marker (takeWhile (\<lambda>c. c \<noteq> 0xA) s)"

definition markdown_title :: "options \<Rightarrow> jstr \<Rightarrow> json" where
  "markdown_title opts s =
     (if truthy (title opts) then title opts
      else JStr (if stripped_first_line s = [] then fallback_title
                 else take 20 (stripped_first_line s)))"

text \<open>
  A markdown text whose first line is a heading longer than twenty characters; a text
  event whose content is blank; and the parameters of a handler call for an event.
\<close>

definition example_markdown :: jstr where
  "example_markdown = u16 ''# Release notes for the new version'' @ [0xA] @ u16 ''body''"

definition blank_text_event :: json where
  "blank_text_event =
     JObj [(u16 ''msgtype'', JStr (u16 ''text'')),
           (u16 ''text'', JObj [(u16 ''content'', JStr (u16 ''   ''))]),
           (u16 ''sessionWebhook'', example_hook)]"

definition example_params :: "json \<Rightarrow> params" where
  "example_params d =
     \<lparr>cfg = JObj [], accountId = JStr (u16 ''default''), data = d,
      sessionWebhook = example_hook, log_info = True, dingtalkConfig = example_config\<rparr>"

section \<open>Observations on traces\<close>

text \<open>
  The events a run adds to the trace; an action that only ever adds events of a given
  kind; an action that, whenever it returns, has added an event of a given kind. The
  events of the pipeline after the download step; the download requests.
\<close>

definition new_events :: "world \<Rightarrow> world \<Rightarrow> event list" where
  "new_events w w' = drop (length (trace w)) (trace w')"

definition emits :: "(event \<Rightarrow> bool) \<Rightarrow> 'a action \<Rightarrow> bool" where
  "emits P m \<longleftrightarrow> (\<forall>w. \<exists>es. trace (snd (m w)) = trace w @ es \<and> list_all P es)"

definition surely :: "(event \<Rightarrow> bool) \<Rightarrow> 'a action \<Rightarrow> bool" where
  "surely Q m \<longleftrightarrow> (\<forall>w x w'. m w = (Inr x, w') \<longrightarrow> list_ex Q (new_events w w'))"

fun pipeline_event :: "event \<Rightarrow> bool" where
  "pipeline_event (TokenRequest a b) = True"
| "pipeline_event (WebhookPost u b t) = True"
| "pipeline_event (Host f a) = True"
| "pipeline_event MarkDispatchIdle = True"
| "pipeline_event (ExistsSync p) = True"
| "pipeline_event (Unlink p) = True"
| "pipeline_event e = False"

fun is_download :: "event \<Rightarrow> bool" where
  "is_download (DownloadRequest c r t) = True"
| "is_download e = False"

text \<open>
  An environment in which the download works, and a picture event from a group chat.
\<close>

definition download_ok_env :: env where
  "download_ok_env = example_env\<lparr>post_download :=
      (\<lambda>k code robot token. Inr (JObj [(u16 ''downloadUrl'', JStr (u16 ''https://file''))]))\<rparr>"

definition picture_event :: json where
  "picture_event =
     JObj [(u16 ''msgtype'', JStr (u16 ''picture'')),
           (u16 ''content'', JObj [(u16 ''downloadCode'', JStr (u16 ''code1''))]),
           (u16 ''conversationType'', JStr (u16 ''2'')),
           (u16 ''conversationId'', JStr (u16 ''cid1'')),
           (u16 ''senderId'', JStr (u16 ''u1'')),
           (u16 ''senderNick'', JStr (u16 ''Alice'')),
           (u16 ''sessionWebhook'', example_hook)]"

text \<open>What the codec makes of the picture event, and the states after its download.\<close>

definition picture_content :: MessageContent where
  "picture_content = \<lparr>c_text = JStr label_picture, c_mediaPath = JStr (u16 ''code1''),
      c_mediaType = JStr (u16 ''image''), c_messageType = JStr (u16 ''picture'')\<rparr>"

definition failed_download_world :: world where
  "failed_download_world =
     token_world\<lparr>trace := trace token_world
        @ [DownloadRequest (JStr (u16 ''code1'')) (JStr (u16 ''robot'')) (u16 ''tok'')],
        tick := 3\<rparr>"

definition downloaded_world :: world where
  "downloaded_world =
     \<lparr>trace = [TokenRequest (JStr (u16 ''id'')) (JStr (u16 ''secret'')),
               DownloadRequest (JStr (u16 ''code1'')) (JStr (u16 ''robot'')) (u16 ''tok''),
               MediaGet (JStr (u16 ''https://file'')),
               WriteFile (u16 ''/tmp/dingtalk_1000004.png'')],
      tick = 6, accessToken = Some (u16 ''tok''), accessTokenExpiry = 8200000, runtime = True\<rparr>"

definition downloaded_file :: media where
  "downloaded_file = \<lparr>path = u16 ''/tmp/dingtalk_1000004.png'', mimeType = u16 ''image/png''\<rparr>"

text \<open>
  An action that always returns, with a result of a given kind; a host whose functions
  all return objects; the acknowledgments in a trace.
\<close>

definition returns :: "('a \<Rightarrow> bool) \<Rightarrow> 'a action \<Rightarrow> bool" where
  "returns Q m \<longleftrightarrow> (\<forall>w. \<exists>x w'. m w = (Inr x, w') \<and> Q x)"

definition host_obj :: "env \<Rightarrow> bool" where
  "host_obj E \<longleftrightarrow> (\<forall>k f a. \<exists>kvs. host_call E k f a = Inr (JObj kvs))"

fun is_ack :: "event \<Rightarrow> bool" where
  "is_ack (Ack mid success) = True"
| "is_ack e = False"

definition malformed_frame :: frame where
  "malformed_frame = \<lparr>messageId = JStr (u16 ''m1''), parsed = Inl SyntaxError\<rparr>"

definition anonymous_frame :: frame where
  "anonymous_frame = \<lparr>messageId = JUndefined, parsed = Inl SyntaxError\<rparr>"

definition two_lines :: jstr where
  "two_lines = u16 ''line one'' @ [0xA] @ u16 ''line two''"

definition newline_reply :: json where
  "newline_reply = JObj [(u16 ''text'', JStr two_lines)]"

definition routing_fails_env :: env where
  "routing_fails_env = download_ok_env\<lparr>host_call :=
      (\<lambda>k f args. Inl (Error (u16 ''no route'')))\<rparr>"

definition get_fails_env :: env where
  "get_fails_env = download_ok_env\<lparr>get_media :=
      (\<lambda>k url. Inl (Error (u16 ''Network Error'')))\<rparr>"

definition write_fails_env :: env where
  "write_fails_env = download_ok_env\<lparr>write_file :=
      (\<lambda>k p. Inl (Error (u16 ''ENOSPC'')))\<rparr>"

section \<open>Properties of the message codec\<close>

lemma bindE_Inr [simp]: "bindE (Inr x) f = f x"
  by (simp add: bindE_def)

lemma bindE_Inl [simp]: "bindE (Inl e) f = Inl e"
  by (simp add: bindE_def)

lemma get_obj: "is_obj x \<Longrightarrow> get x k = Inr (opt_get x k)"
  by (cases x) simp_all

lemma opt_get_absent: "absent x \<Longrightarrow> opt_get x k = JUndefined"
  by (cases x) simp_all

lemma js_or_wire:
  "str_or_absent x \<Longrightarrow> js_or x (JStr d) = JStr (if str_of x = [] then d else str_of x)"
  by (cases x) (simp_all add: js_or_def)

lemma js_or_str: "js_or (JStr s) (JStr d) = JStr (if s = [] then d else s)"
  by (simp add: js_or_def)

text \<open>
  What \<open>trim\<close> returns: the string without a run of white space at either end, and
  nothing else removed.
\<close>

lemma list_all_takeWhile: "list_all P (takeWhile P xs)"
  by (induction xs) simp_all

lemma trim_decomposition:
  "\<exists>a b. s = a @ trim s @ b \<and> list_all is_space a \<and> list_all is_space b"
proof -
  let ?t = "dropWhile is_space s"
  have 1: "s = takeWhile is_space s @ ?t" by simp
  have "rev (rev ?t) = rev (takeWhile is_space (rev ?t) @ dropWhile is_space (rev ?t))"
    by (simp only: takeWhile_dropWhile_id)
  then have "?t = rev (dropWhile is_space (rev ?t)) @ rev (takeWhile is_space (rev ?t))"
    by (simp only: rev_append rev_rev_ident)
  then have 3: "?t = trim s @ rev (takeWhile is_space (rev ?t))"
    by (simp add: trim_def)
  have "s = takeWhile is_space s @ trim s @ rev (takeWhile is_space (rev ?t))"
    using 1 3 by metis
  moreover have "list_all is_space (takeWhile is_space s)"
    by (rule list_all_takeWhile)
  moreover have "list_all is_space (rev (takeWhile is_space (rev ?t)))"
    by (simp add: list_all_takeWhile)
  ultimately show ?thesis by blast
qed

lemma trim_ends:
  assumes "trim s \<noteq> []"
  shows "\<not> is_space (hd (trim s))" and "\<not> is_space (last (trim s))"
proof -
  define t where "t = dropWhile is_space s"
  define u where "u = dropWhile is_space (rev t)"
  have tr: "trim s = rev u" by (simp add: trim_def t_def u_def)
  have u: "u \<noteq> []" using assms tr by simp
  have hu: "\<not> is_space (hd u)" using u unfolding u_def by (rule hd_dropWhile)
  show "\<not> is_space (last (trim s))"
    using hu u by (simp add: tr last_rev)
  have t: "t \<noteq> []"
  proof
    assume "t = []"
    then have "u = []" by (simp add: u_def)
    with u show False by simp
  qed
  have h: "\<not> is_space (hd t)" using t unfolding t_def by (rule hd_dropWhile)
  obtain x xs where x: "t = x # xs" using t by (cases t) auto
  have "u = dropWhile is_space (rev xs @ [x])" by (simp add: u_def x)
  also have "\<dots> = dropWhile is_space (rev xs) @ [x]"
    using h x by (induction "rev xs") (auto simp: dropWhile_append)
  finally have "trim s = x # rev (dropWhile is_space (rev xs))"
    by (simp add: tr)
  then show "\<not> is_space (hd (trim s))" using h x by simp
qed

lemma filter_segments:
  "list_all wire_segment ps \<Longrightarrow>
   js_filter (\<lambda>p. bindE (get p k) (\<lambda>ty. Inr (ty = v))) ps
     = Inr (filter (\<lambda>p. opt_get p k = v) ps)"
  by (induction ps) (auto simp: wire_segment_def get_obj)

lemma map_segments:
  "list_all wire_segment ps \<Longrightarrow> js_map (\<lambda>p. get p k) ps = Inr (map (\<lambda>p. opt_get p k) ps)"
  by (induction ps) (auto simp: wire_segment_def get_obj)

lemma elem_strings_wire:
  "list_all str_or_absent vs \<Longrightarrow> elem_strings vs = Inr (map str_of vs)"
proof (induction vs)
  case Nil
  then show ?case by simp
next
  case (Cons v vs)
  then show ?case by (cases v) simp_all
qed

lemma intercalate_empty: "intercalate [] ss = concat ss"
  by (induction "[]::jstr" ss rule: intercalate.induct) simp_all

lemma join_segments:
  "list_all str_or_absent vs \<Longrightarrow> js_join vs [] = Inr (concat (map str_of vs))"
  by (simp add: js_join_def elem_strings_wire intercalate_empty)

lemma rich_parts:
  assumes "wire_segments x"
  shows "as_array (js_or x (JArr [])) = Inr (segments_of x)"
  using assms by (cases x) (simp_all add: js_or_def)

lemma trimmed_wire:
  assumes "str_or_absent x"
  shows "\<exists>v. opt_trim x = Inr v \<and> js_or v (JStr []) = JStr (trim (str_of x))
           \<and> truthy v = (trim (str_of x) \<noteq> [])
           \<and> (truthy v \<longrightarrow> v = JStr (trim (str_of x)))"
  using assms by (cases x) (simp_all add: js_or_def trim_def)

lemma wire_eventD:
  assumes "wire_event ev"
  shows "is_obj ev"
    and "str_or_absent (opt_get ev (u16 ''msgtype''))"
    and "str_or_absent (opt_get (opt_get ev (u16 ''text'')) (u16 ''content''))"
    and "wire_segments (opt_get (opt_get ev (u16 ''content'')) (u16 ''richText''))"
    and "str_or_absent (opt_get (opt_get ev (u16 ''content'')) (u16 ''downloadCode''))"
    and "str_or_absent (opt_get (opt_get ev (u16 ''content'')) (u16 ''recognition''))"
    and "str_or_absent (opt_get (opt_get ev (u16 ''content'')) (u16 ''fileName''))"
  using assms by (auto simp: wire_event_def Let_def opt_get_absent)

lemma rich_text_wire:
  assumes "wire_segments x"
  shows "bindE (as_array (js_or x (JArr []))) (\<lambda>parts.
         bindE (js_filter (\<lambda>p. bindE (get p (u16 ''type''))
                                  (\<lambda>ty. Inr (ty = JStr (u16 ''text'')))) parts) (\<lambda>kept.
         bindE (js_map (\<lambda>p. get p (u16 ''text'')) kept) (\<lambda>texts.
         bindE (js_join texts []) f))) =
         f (concat (map (\<lambda>p. str_of (opt_get p (u16 ''text'')))
              (filter (\<lambda>p. opt_get p (u16 ''type'') = JStr (u16 ''text'')) (segments_of x))))"
proof -
  let ?ps = "segments_of x"
  let ?kept = "filter (\<lambda>p. opt_get p (u16 ''type'') = JStr (u16 ''text'')) ?ps"
  have a: "as_array (js_or x (JArr [])) = Inr ?ps" using assms by (rule rich_parts)
  have w: "list_all wire_segment ?ps" using assms by (cases x) simp_all
  then have k: "list_all wire_segment ?kept" by (simp add: list_all_iff)
  have s: "list_all str_or_absent (map (\<lambda>p. opt_get p (u16 ''text'')) ?kept)"
    using k by (simp add: list_all_iff wire_segment_def)
  show ?thesis
    by (simp add: a filter_segments [OF w] map_segments [OF k] join_segments [OF s] comp_def)
qed

text \<open>
  C1. On every event of the wire schema \<open>extractMessageContent\<close> returns, without
  throwing, exactly the row of the table of section 4.3 for the event's \<open>msgtype\<close>:
  the trimmed content for \<open>text\<close>; the text segments concatenated, or the
  placeholder when that is empty, for \<open>richText\<close>; the label with the download code
  and the media type \<open>image\<close>, \<open>audio\<close>, \<open>video\<close>, \<open>file\<close> for \<open>picture\<close>,
  \<open>audio\<close> (the transcript instead of the label when there is one), \<open>video\<close> and
  \<open>file\<close> (the label carrying the file name); and for any other type the trimmed
  original text, or the placeholder naming the type, with no media fields.
\<close>

theorem extractMessageContent_table:
  assumes "wire_event ev"
  shows "extractMessageContent ev = Inr (extractContent ev)"
proof -
  note d = wire_eventD [OF assms]
  have g: "get ev k = Inr (opt_get ev k)" for k using d(1) by (rule get_obj)
  obtain v where v: "opt_trim (opt_get (opt_get ev (u16 ''text'')) (u16 ''content'')) = Inr v"
    "js_or v (JStr []) = JStr (trim (str_of (opt_get (opt_get ev (u16 ''text'')) (u16 ''content''))))"
    "truthy v = (trim (str_of (opt_get (opt_get ev (u16 ''text'')) (u16 ''content''))) \<noteq> [])"
    "truthy v \<longrightarrow> v = JStr (trim (str_of (opt_get (opt_get ev (u16 ''text'')) (u16 ''content''))))"
    using trimmed_wire [OF d(3)] by blast
  define ty where "ty = (if str_of (opt_get ev (u16 ''msgtype'')) = [] then u16 ''text''
                else str_of (opt_get ev (u16 ''msgtype'')))"
  have m: "js_or (opt_get ev (u16 ''msgtype'')) (JStr (u16 ''text'')) = JStr ty"
    by (simp add: js_or_wire [OF d(2)] ty_def)
  have lits: "distinct [u16 ''text'', u16 ''richText'', u16 ''picture'', u16 ''audio'',
     u16 ''video'', u16 ''file'']"
    by (simp add: u16_def)
  show ?thesis
    unfolding extractMessageContent_def extractContent_def ty_def [symmetric]
    using lits
    by (simp add: g m rich_text_wire [OF d(4)] js_or_wire [OF d(6)]
        js_or_wire [OF d(7)] v Let_def js_or_str)
qed

theorem extractMessageContent_table_witness:
  "wire_event example_richText
   \<and> extractMessageContent example_richText
       = Inr \<lparr>c_text = JStr (u16 ''abcd''), c_mediaPath = JUndefined,
              c_mediaType = JUndefined, c_messageType = JStr (u16 ''richText'')\<rparr>"
proof -
  have h: "wire_event example_richText"
    by (simp add: example_richText_def wire_event_def wire_segment_def u16_def)
  show ?thesis
    using h extractMessageContent_table [OF h]
    by (simp add: example_richText_def extractContent_def u16_def Let_def label_richText_def)
qed

text \<open>
  C10. An event object with no \<open>msgtype\<close> property at all, whose \<open>text.content\<close> is
  a string or missing, is decoded as a text message: the result is the trimmed
  content (the empty string when there is none) with message type \<open>text\<close> and no
  media fields; nothing is thrown and the placeholder of the unknown-type branch is
  not used. The event is treated exactly as the same event with
  \<open>msgtype: "text"\<close>.
\<close>

theorem extractMessageContent_no_msgtype:
  assumes "map_of kvs (u16 ''msgtype'') = None"
  shows "extractMessageContent (JObj kvs)
           = extractMessageContent (JObj ((u16 ''msgtype'', JStr (u16 ''text'')) # kvs))
         \<and> (str_or_absent (opt_get (opt_get (JObj kvs) (u16 ''text'')) (u16 ''content'')) \<longrightarrow>
            extractMessageContent (JObj kvs)
              = Inr \<lparr>c_text = JStr (trim (str_of (opt_get (opt_get (JObj kvs) (u16 ''text''))
                                                      (u16 ''content'')))),
                     c_mediaPath = JUndefined, c_mediaType = JUndefined,
                     c_messageType = JStr (u16 ''text'')\<rparr>)"
proof -
  have k: "u16 ''text'' \<noteq> u16 ''msgtype''" by (simp add: u16_def)
  have 1: "extractMessageContent (JObj kvs)
           = extractMessageContent (JObj ((u16 ''msgtype'', JStr (u16 ''text'')) # kvs))"
    using assms k by (simp add: extractMessageContent_def js_or_def Let_def)
  have 2: "extractMessageContent (JObj kvs)
              = Inr \<lparr>c_text = JStr (trim (str_of (opt_get (opt_get (JObj kvs) (u16 ''text''))
                                                      (u16 ''content'')))),
                     c_mediaPath = JUndefined, c_mediaType = JUndefined,
                     c_messageType = JStr (u16 ''text'')\<rparr>"
    if s: "str_or_absent (opt_get (opt_get (JObj kvs) (u16 ''text'')) (u16 ''content''))"
  proof -
    obtain v where v: "opt_trim (opt_get (opt_get (JObj kvs) (u16 ''text'')) (u16 ''content'')) = Inr v"
      "js_or v (JStr []) = JStr (trim (str_of (opt_get (opt_get (JObj kvs) (u16 ''text''))
                                                 (u16 ''content''))))"
      using trimmed_wire [OF s] by blast
    show ?thesis
      using assms v by (simp add: extractMessageContent_def js_or_def Let_def)
  qed
  show ?thesis using 1 2 by blast
qed

theorem extractMessageContent_no_msgtype_witness:
  "map_of example_untyped (u16 ''msgtype'') = None
   \<and> extractMessageContent (JObj example_untyped)
       = Inr \<lparr>c_text = JStr (u16 ''hi''), c_mediaPath = JUndefined,
              c_mediaType = JUndefined, c_messageType = JStr (u16 ''text'')\<rparr>"
proof -
  have a: "map_of example_untyped (u16 ''msgtype'') = None"
    by (simp add: example_untyped_def u16_def)
  have b: "str_or_absent (opt_get (opt_get (JObj example_untyped) (u16 ''text'')) (u16 ''content''))"
    by (simp add: example_untyped_def u16_def)
  have "extractMessageContent (JObj example_untyped)
          = Inr \<lparr>c_text = JStr (trim (str_of (opt_get (opt_get (JObj example_untyped)
                                                          (u16 ''text'')) (u16 ''content'')))),
                 c_mediaPath = JUndefined, c_mediaType = JUndefined,
                 c_messageType = JStr (u16 ''text'')\<rparr>"
    using extractMessageContent_no_msgtype [OF a] b by blast
  then show ?thesis
    using a by (simp add: example_untyped_def u16_def trim_def is_space_def)
qed

section \<open>Sequencing of actions\<close>

lemma bindA_ret [simp]: "bindA (ret x) f = f x"
  by (simp add: bindA_def ret_def)

lemma bindA_throw [simp]: "bindA (throw e) f = throw e"
  by (simp add: bindA_def throw_def)

lemma bindA_lift_Inr [simp]: "bindA (lift (Inr x)) f = f x"
  by (simp add: bindA_def lift_def)

lemma bindA_lift_Inl [simp]: "bindA (lift (Inl e)) f = throw e"
  by (simp add: bindA_def lift_def throw_def)

lemma bindA_Inr: "m w = (Inr x, w1) \<Longrightarrow> bindA m f w = f x w1"
  by (simp add: bindA_def)

lemma bindA_Inl: "m w = (Inl e, w1) \<Longrightarrow> bindA m f w = (Inl e, w1)"
  by (simp add: bindA_def)

lemma try_catch_Inr: "m w = (Inr x, w1) \<Longrightarrow> try_catch m h w = (Inr x, w1)"
  by (simp add: try_catch_def)

lemma try_catch_Inl: "m w = (Inl e, w1) \<Longrightarrow> try_catch m h w = h e w1"
  by (simp add: try_catch_def)

lemma try_finally_run:
  "m w = (r, w1) \<Longrightarrow> f w1 = (Inr u, w2) \<Longrightarrow> try_finally m f w = (r, w2)"
  by (simp add: try_finally_def)

section \<open>Properties of the token cache\<close>

text \<open>
  C2, as the code has it. A call reads the clock once. If a non-empty token is cached
  and its stored expiry is more than 60000 ms after that reading, the cached token is
  returned and nothing else happens: no request, no change of the cache. Otherwise
  (nothing cached, an empty string cached, or 60000 ms or less left) exactly one
  request goes to the identity endpoint, with \<open>clientId\<close> and \<open>clientSecret\<close>; when
  it is answered the token is stored with the expiry \<open>now + expireIn * 1000\<close> and
  returned, when it fails the exception propagates and the cache is unchanged. A
  token returned without a request has more than 60 seconds left; for a freshly
  fetched token nothing of the kind is checked.
\<close>

theorem getAccessToken_cache:
  assumes "getAccessToken E c w = (r, w')"
  shows "(\<forall>tok. accessToken w = Some tok \<and> tok \<noteq> []
                \<and> accessTokenExpiry w > clock E (tick w) + 60000
            \<longrightarrow> r = Inr tok \<and> w' = w\<lparr>tick := Suc (tick w)\<rparr>)
         \<and> (accessToken w = None \<or> accessToken w = Some []
              \<or> accessTokenExpiry w \<le> clock E (tick w) + 60000
            \<longrightarrow> trace w' = trace w @ [TokenRequest (clientId c) (clientSecret c)]
                \<and> (case post_token E (Suc (tick w)) (clientId c) (clientSecret c) of
                     Inl e \<Rightarrow> r = Inl e \<and> accessToken w' = accessToken w
                              \<and> accessTokenExpiry w' = accessTokenExpiry w
                   | Inr reply \<Rightarrow> r = Inr (r_accessToken reply)
                              \<and> accessToken w' = Some (r_accessToken reply)
                              \<and> accessTokenExpiry w'
                                  = clock E (tick w) + r_expireIn reply * 1000))
         \<and> (\<forall>tok. r = Inr tok \<and> trace w' = trace w
            \<longrightarrow> accessToken w' = Some tok
                \<and> accessTokenExpiry w' > clock E (tick w) + 60000)"
  using assms
  by (auto simp: getAccessToken_def bindA_def now_def call_def
      split: option.splits if_splits sum.splits)

theorem getAccessToken_cache_witness:
  "getAccessToken example_env example_config cached_world
     = (Inr (u16 ''old''), cached_world\<lparr>tick := 1\<rparr>)
   \<and> trace (snd (getAccessToken example_env example_config
                    (cached_world\<lparr>accessTokenExpiry := 1060000\<rparr>)))
     = [TokenRequest (JStr (u16 ''id'')) (JStr (u16 ''secret''))]"
proof -
  obtain r w' where a: "getAccessToken example_env example_config cached_world = (r, w')"
    by (cases "getAccessToken example_env example_config cached_world")
  obtain r2 w2 where b: "getAccessToken example_env example_config
                    (cached_world\<lparr>accessTokenExpiry := 1060000\<rparr>) = (r2, w2)"
    by (cases "getAccessToken example_env example_config
                    (cached_world\<lparr>accessTokenExpiry := 1060000\<rparr>)")
  show ?thesis
    using getAccessToken_cache [OF a] getAccessToken_cache [OF b] a b
    by (simp add: example_env_def example_config_def cached_world_def u16_def)
qed

text \<open>
  The last sentence of the claim fails for a fresh token: with nothing cached and an
  endpoint that reports \<open>expireIn = 30\<close>, the token is returned although its stored
  expiry is only 30 seconds after the clock reading of the call.
\<close>

theorem getAccessToken_fresh_counterexample:
  "fst (getAccessToken short_lived_env example_config empty_world) = Inr (u16 ''tok'')
   \<and> accessToken (snd (getAccessToken short_lived_env example_config empty_world))
       = Some (u16 ''tok'')
   \<and> \<not> clock short_lived_env (tick empty_world) + 60000
         < accessTokenExpiry (snd (getAccessToken short_lived_env example_config empty_world))"
  by (simp add: getAccessToken_def bindA_def now_def call_def short_lived_env_def example_env_def
      example_config_def empty_world_def)

section \<open>Properties of the media transfer\<close>

text \<open>
  C3. Once the token is there and the file's size is known, \<open>uploadMedia\<close> returns
  \<open>null\<close> with no upload request (the trace only gains the \<open>stat\<close>) when the size
  is strictly above the ceiling of the media type, and it attempts the upload when
  the size is at or below the ceiling; so a file of exactly the limit passes the gate
  and one byte more is rejected. The ceilings are 20 MiB for image, video and file
  and 2 MiB for voice.
\<close>

theorem uploadMedia_size_gate:
  assumes "getToken c w = (Inr token, w1)" and "stat_size E (tick w1) p = Inr sz"
  shows "(sz > FILE_SIZE_LIMITS ty \<longrightarrow>
            uploadMedia E c p ty getToken w
              = (Inr JNull, w1\<lparr>trace := trace w1 @ [Stat p], tick := Suc (tick w1)\<rparr>))
         \<and> (sz \<le> FILE_SIZE_LIMITS ty \<longrightarrow>
            trace (snd (uploadMedia E c p ty getToken w))
              = trace w1 @ [Stat p, CreateReadStream p, UploadPost token ty p, DestroyStream p])
         \<and> FILE_SIZE_LIMITS Image = 20 * 1024 * 1024 \<and> FILE_SIZE_LIMITS Video = 20 * 1024 * 1024
         \<and> FILE_SIZE_LIMITS File = 20 * 1024 * 1024 \<and> FILE_SIZE_LIMITS Voice = 2 * 1024 * 1024"
  using assms
  by (auto simp: uploadMedia_def bindA_def try_catch_def try_finally_def call_def ret_def
      FILE_SIZE_LIMITS_def Let_def split: sum.splits prod.splits)

lemma example_token:
  "getAccessToken example_env example_config empty_world = (Inr (u16 ''tok''), token_world)"
  "getAccessToken over_limit_env example_config empty_world = (Inr (u16 ''tok''), token_world)"
  by (simp_all add: getAccessToken_def bindA_def now_def call_def example_env_def over_limit_env_def
      example_config_def empty_world_def token_world_def)

theorem uploadMedia_size_gate_witness:
  "trace (snd (uploadMedia example_env example_config (u16 ''a.amr'') Voice
                 (getAccessToken example_env) empty_world))
     = [TokenRequest (JStr (u16 ''id'')) (JStr (u16 ''secret'')), Stat (u16 ''a.amr''),
        CreateReadStream (u16 ''a.amr''), UploadPost (u16 ''tok'') Voice (u16 ''a.amr''),
        DestroyStream (u16 ''a.amr'')]
   \<and> fst (uploadMedia over_limit_env example_config (u16 ''a.amr'') Voice
            (getAccessToken over_limit_env) empty_world) = Inr JNull
   \<and> trace (snd (uploadMedia over_limit_env example_config (u16 ''a.amr'') Voice
                 (getAccessToken over_limit_env) empty_world))
     = [TokenRequest (JStr (u16 ''id'')) (JStr (u16 ''secret'')), Stat (u16 ''a.amr'')]"
proof -
  have a: "stat_size example_env (tick token_world) (u16 ''a.amr'') = Inr 2097152"
    by (simp add: example_env_def)
  have b: "stat_size over_limit_env (tick token_world) (u16 ''a.amr'') = Inr 2097153"
    by (simp add: over_limit_env_def)
  show ?thesis
    using uploadMedia_size_gate [where getToken = "getAccessToken example_env"
          and c = example_config and ty = Voice, OF example_token(1) a]
      uploadMedia_size_gate [where getToken = "getAccessToken over_limit_env"
          and c = example_config and ty = Voice, OF example_token(2) b]
    by (simp add: token_world_def)
qed


section \<open>Properties of the outbound messages\<close>

lemma split_on_nonempty: "split_on c s \<noteq> []"
  by (induction s) (auto split: list.splits)

lemma first_line_takeWhile: "first_line s = takeWhile (\<lambda>c. c \<noteq> 0xA) s"
proof (induction s)
  case Nil
  then show ?case by (simp add: first_line_def)
next
  case (Cons x xs)
  then show ?case
    using split_on_nonempty [of "0xA" xs]
    by (auto simp: first_line_def split: list.splits)
qed

lemma has_features: 
  "bindE (regex_test (JStr s)) (\<lambda>matches. if matches then Inr True else includes_newline (JStr s))
     = Inr (markdown_features s)"
  by (cases s) (auto simp: regex_test_def markdown_regex_def markdown_features_def
      leading_marker_def inline_marker_def list_ex_iff)

lemma sendMessage_string:
  "sendMessage E c hook (JStr s) opts =
     (if useMarkdown opts \<noteq> JBool False \<and> (truthy (useMarkdown opts) \<or> markdown_features s)
      then sendMarkdownMessage E c hook (markdown_title opts s) (JStr s) opts
      else sendTextMessage E c hook (JStr s) opts)"
  by (simp add: sendMessage_def has_features Let_def markdown_title_def js_or_str
      first_line_takeWhile stripped_first_line_def)

lemma u16_Nil [simp]: "u16 s = [] \<longleftrightarrow> s = []"
  by (simp add: u16_def)

lemma sendMarkdownMessage_run:
  assumes "getAccessToken E c w = (Inr token, w1)" and "\<not> truthy (atUserId opts)"
  shows "sendMarkdownMessage E c hook ttl md opts w =
          (let body = JObj [(u16 ''msgtype'', JStr (u16 ''markdown'')),
                            (u16 ''markdown'', JObj [(u16 ''title'', js_or ttl (JStr fallback_title)),
                                                     (u16 ''text'', md)])]
           in (post_webhook E (tick w1) hook body token,
               w1\<lparr>trace := trace w1 @ [WebhookPost hook body token], tick := Suc (tick w1)\<rparr>))"
  using assms
  by (simp add: sendMarkdownMessage_def bindA_Inr at_part_def call_def Let_def)

lemma sendTextMessage_run:
  assumes "getAccessToken E c w = (Inr token, w1)" and "\<not> truthy (atUserId opts)"
  shows "sendTextMessage E c hook txt opts w =
          (let body = JObj [(u16 ''msgtype'', JStr (u16 ''text'')),
                            (u16 ''text'', JObj [(u16 ''content'', txt)])]
           in (post_webhook E (tick w1) hook body token,
               w1\<lparr>trace := trace w1 @ [WebhookPost hook body token], tick := Suc (tick w1)\<rparr>))"
  using assms
  by (simp add: sendTextMessage_def bindA_Inr at_part_def call_def Let_def)

text \<open>
  The classification made by \<open>sendMessage\<close> itself. Without a caller's flag
  (\<open>options.useMarkdown\<close> undefined, or any other falsy value than \<open>false\<close>)
  \<open>sendMessage\<close> hands a text to \<open>sendMarkdownMessage\<close> if
  and only if the text has markdown features, and to \<open>sendTextMessage\<close> otherwise.
  A truthy flag sends any text as markdown and the flag \<open>false\<close> sends any text as
  plain text.
\<close>

theorem sendMessage_classification:
  "(useMarkdown opts \<noteq> JBool False \<and> \<not> truthy (useMarkdown opts) \<longrightarrow>
      sendMessage E c hook (JStr s) opts =
        (if markdown_features s
         then sendMarkdownMessage E c hook (markdown_title opts s) (JStr s) opts
         else sendTextMessage E c hook (JStr s) opts))
   \<and> (truthy (useMarkdown opts) \<longrightarrow>
        sendMessage E c hook (JStr s) opts
          = sendMarkdownMessage E c hook (markdown_title opts s) (JStr s) opts)
   \<and> (useMarkdown opts = JBool False \<longrightarrow>
        sendMessage E c hook (JStr s) opts = sendTextMessage E c hook (JStr s) opts)"
  by (auto simp: sendMessage_string)


theorem sendMessage_classification_witness:
  "trace (snd (sendMessage example_env example_config example_hook (JStr (u16 ''plain words''))
                 no_options empty_world))
     = [TokenRequest (JStr (u16 ''id'')) (JStr (u16 ''secret'')),
        WebhookPost example_hook
          (JObj [(u16 ''msgtype'', JStr (u16 ''text'')),
                 (u16 ''text'', JObj [(u16 ''content'', JStr (u16 ''plain words''))])])
          (u16 ''tok'')]
   \<and> trace (snd (sendMessage example_env example_config example_hook (JStr (u16 ''a [b]''))
                 (no_options\<lparr>useMarkdown := JBool False\<rparr>) empty_world))
     = [TokenRequest (JStr (u16 ''id'')) (JStr (u16 ''secret'')),
        WebhookPost example_hook
          (JObj [(u16 ''msgtype'', JStr (u16 ''text'')),
                 (u16 ''text'', JObj [(u16 ''content'', JStr (u16 ''a [b]''))])])
          (u16 ''tok'')]
   \<and> trace (snd (sendMessage example_env example_config example_hook (JStr (u16 ''plain words''))
                 (no_options\<lparr>useMarkdown := JBool True\<rparr>) empty_world))
     = [TokenRequest (JStr (u16 ''id'')) (JStr (u16 ''secret'')),
        WebhookPost example_hook
          (JObj [(u16 ''msgtype'', JStr (u16 ''markdown'')),
                 (u16 ''markdown'', JObj [(u16 ''title'', JStr (u16 ''plain words'')),
                                           (u16 ''text'', JStr (u16 ''plain words''))])])
          (u16 ''tok'')]"
proof -
  have f: "\<not> markdown_features (u16 ''plain words'')"
    by (simp add: markdown_features_def u16_def)
  have t: "markdown_title opts (u16 ''plain words'') = JStr (u16 ''plain words'')"
    if "title opts = JUndefined" for opts
    using that
    by (simp add: markdown_title_def stripped_first_line_def u16_def
        title_marker_def is_space_def)
  show ?thesis
    using sendMessage_classification [of no_options example_env example_config example_hook
        "u16 ''plain words''"]
      sendMessage_classification [of "no_options\<lparr>useMarkdown := JBool False\<rparr>" example_env
        example_config example_hook "u16 ''a [b]''"]
      sendMessage_classification [of "no_options\<lparr>useMarkdown := JBool True\<rparr>" example_env
        example_config example_hook "u16 ''plain words''"]
    by (simp add: f t sendTextMessage_run [OF example_token(1)]
        sendMarkdownMessage_run [OF example_token(1)] no_options_def token_world_def js_or_def Let_def)
qed

text \<open>
  C5. When a text is sent as markdown and the caller gives no title, the title handed
  to \<open>sendMarkdownMessage\<close> is the first line of the text, without its leading
  run of markers (\<open>#\<close>, \<open>*\<close>, \<open>-\<close>, \<open>>\<close> and white space), cut to 20 UTF-16
  code units, and the fixed fallback title when nothing is left of the first line;
  \<open>sendMarkdownMessage\<close> keeps that title as it is.
\<close>

theorem sendMessage_title:
  assumes "\<not> truthy (title opts)" and "useMarkdown opts \<noteq> JBool False"
    and "truthy (useMarkdown opts) \<or> markdown_features s"
  shows "sendMessage E c hook (JStr s) opts =
           sendMarkdownMessage E c hook
             (JStr (if stripped_first_line s = [] then fallback_title
                    else take 20 (stripped_first_line s))) (JStr s) opts
         \<and> js_or (JStr (if stripped_first_line s = [] then fallback_title
                        else take 20 (stripped_first_line s))) (JStr fallback_title)
             = JStr (if stripped_first_line s = [] then fallback_title
                     else take 20 (stripped_first_line s))
         \<and> (\<exists>blanks. takeWhile (\<lambda>c. c \<noteq> 0xA) s = blanks @ stripped_first_line s
               \<and> list_all title_marker blanks
               \<and> (stripped_first_line s \<noteq> [] \<longrightarrow> \<not> title_marker (hd (stripped_first_line s))))"
proof -
  have 1: "sendMessage E c hook (JStr s) opts =
           sendMarkdownMessage E c hook
             (JStr (if stripped_first_line s = [] then fallback_title
                    else take 20 (stripped_first_line s))) (JStr s) opts"
    using assms by (simp add: sendMessage_string markdown_title_def)
  have 2: "js_or (JStr (if stripped_first_line s = [] then fallback_title
                        else take 20 (stripped_first_line s))) (JStr fallback_title)
             = JStr (if stripped_first_line s = [] then fallback_title
                     else take 20 (stripped_first_line s))"
    by (simp add: js_or_def fallback_title_def)
  have 3: "takeWhile (\<lambda>c. c \<noteq> 0xA) s
             = takeWhile title_marker (takeWhile (\<lambda>c. c \<noteq> 0xA) s) @ stripped_first_line s"
    by (simp add: stripped_first_line_def)
  have 4: "list_all title_marker (takeWhile title_marker (takeWhile (\<lambda>c. c \<noteq> 0xA) s))"
    by (rule list_all_takeWhile)
  have 5: "stripped_first_line s \<noteq> [] \<longrightarrow> \<not> title_marker (hd (stripped_first_line s))"
    unfolding stripped_first_line_def
    using hd_dropWhile [of title_marker "takeWhile (\<lambda>c. c \<noteq> 0xA) s"] by blast
  show ?thesis using 1 2 3 4 5 by blast
qed

theorem sendMessage_title_witness:
  "trace (snd (sendMessage example_env example_config example_hook (JStr example_markdown)
                 no_options empty_world))
     = [TokenRequest (JStr (u16 ''id'')) (JStr (u16 ''secret'')),
        WebhookPost example_hook
          (JObj [(u16 ''msgtype'', JStr (u16 ''markdown'')),
                 (u16 ''markdown'', JObj [(u16 ''title'', JStr (u16 ''Release notes for th'')),
                                           (u16 ''text'', JStr example_markdown)])])
          (u16 ''tok'')]"
proof -
  have a: "\<not> truthy (title no_options)" "useMarkdown no_options \<noteq> JBool False"
    by (simp_all add: no_options_def)
  have b: "truthy (useMarkdown no_options) \<or> markdown_features example_markdown"
    by (simp add: markdown_features_def example_markdown_def u16_def)
  have c: "stripped_first_line example_markdown = u16 ''Release notes for the new version''"
    by (simp add: stripped_first_line_def example_markdown_def u16_def title_marker_def is_space_def)
  have d: "\<not> truthy (atUserId no_options)" by (simp add: no_options_def)
  show ?thesis
    using sendMessage_title [OF a b, of example_env example_config example_hook]
    by (simp add: c sendMarkdownMessage_run [OF example_token(1) d] Let_def token_world_def)
       (simp add: u16_def)
qed

section \<open>Properties of the inbound handler\<close>

lemma getRuntime_run:
  "bindA getRuntime f w =
     (if runtime w then f () w else (Inl (Error (u16 ''DingTalk runtime not initialized'')), w))"
  by (simp add: bindA_def getRuntime_def)

text \<open>
  C6. When the decoded text of an event is the empty string the handler does nothing
  at all: the trace is unchanged, so there is no route resolution, no session
  recording, no thinking message and no dispatch call; and with the runtime
  registered it returns normally, leaving the whole state as it was.
\<close>

theorem handleDingTalkMessage_empty_text:
  assumes "extractMessageContent (data ps) = Inr content" and "c_text content = JStr []"
  shows "trace (snd (handleDingTalkMessage E ps w)) = trace w
         \<and> (runtime w \<longrightarrow> handleDingTalkMessage E ps w = (Inr (), w))"
  using assms
  by (simp add: handleDingTalkMessage_def getRuntime_run ret_def)

theorem handleDingTalkMessage_empty_text_witness:
  "extractMessageContent blank_text_event
     = Inr \<lparr>c_text = JStr [], c_mediaPath = JUndefined, c_mediaType = JUndefined,
            c_messageType = JStr (u16 ''text'')\<rparr>
   \<and> handleDingTalkMessage example_env (example_params blank_text_event) empty_world
     = (Inr (), empty_world)"
proof -
  have a: "extractMessageContent (data (example_params blank_text_event))
     = Inr \<lparr>c_text = JStr [], c_mediaPath = JUndefined, c_mediaType = JUndefined,
            c_messageType = JStr (u16 ''text'')\<rparr>"
    by (simp add: example_params_def blank_text_event_def extractMessageContent_def u16_def
        js_or_def trim_def is_space_def)
  show ?thesis
    using a handleDingTalkMessage_empty_text [OF a, of example_env empty_world]
    by (simp add: example_params_def empty_world_def)
qed

section \<open>How actions extend the trace\<close>

lemma emitsI:
  assumes "\<And>w. \<exists>es. trace (snd (m w)) = trace w @ es \<and> list_all P es"
  shows "emits P m"
  using assms by (simp add: emits_def)

lemma emitsD:
  assumes "emits P m"
  obtains es where "trace (snd (m w)) = trace w @ es" and "list_all P es"
  using assms unfolding emits_def by blast

lemma emits_ret [intro!, simp]: "emits P (ret x)"
  by (simp add: emits_def ret_def)

lemma emits_throw [intro!, simp]: "emits P (throw e)"
  by (simp add: emits_def throw_def)

lemma emits_lift [intro!, simp]: "emits P (lift r)"
  by (simp add: emits_def lift_def)

lemma emits_bindA [intro!]:
  assumes "emits P m" and "\<And>x. emits P (f x)"
  shows "emits P (bindA m f)"
proof (rule emitsI)
  fix w
  obtain r w1 where m: "m w = (r, w1)" by (cases "m w")
  obtain es where es: "trace w1 = trace w @ es" "list_all P es"
    using emitsD [OF assms(1), of w] m by auto
  show "\<exists>es. trace (snd (bindA m f w)) = trace w @ es \<and> list_all P es"
  proof (cases r)
    case (Inl e)
    then show ?thesis using m es by (auto simp: bindA_def)
  next
    case (Inr x)
    obtain es' where "trace (snd (f x w1)) = trace w1 @ es'" "list_all P es'"
      using emitsD [OF assms(2), of x w1] by auto
    then show ?thesis using m es Inr by (auto simp: bindA_def)
  qed
qed

lemma emits_try_catch [intro!]:
  assumes "emits P m" and "\<And>e. emits P (h e)"
  shows "emits P (try_catch m h)"
proof (rule emitsI)
  fix w
  obtain r w1 where m: "m w = (r, w1)" by (cases "m w")
  obtain es where es: "trace w1 = trace w @ es" "list_all P es"
    using emitsD [OF assms(1), of w] m by auto
  show "\<exists>es. trace (snd (try_catch m h w)) = trace w @ es \<and> list_all P es"
  proof (cases r)
    case (Inr x)
    then show ?thesis using m es by (auto simp: try_catch_def)
  next
    case (Inl e)
    obtain es' where "trace (snd (h e w1)) = trace w1 @ es'" "list_all P es'"
      using emitsD [OF assms(2), of e w1] by auto
    then show ?thesis using m es Inl by (auto simp: try_catch_def)
  qed
qed

lemma emits_try_finally [intro!]:
  assumes "emits P m" and "emits P f"
  shows "emits P (try_finally m f)"
proof (rule emitsI)
  fix w
  obtain r w1 where m: "m w = (r, w1)" by (cases "m w")
  obtain es where es: "trace w1 = trace w @ es" "list_all P es"
    using emitsD [OF assms(1), of w] m by auto
  obtain r2 w2 where f: "f w1 = (r2, w2)" by (cases "f w1")
  obtain es' where es': "trace w2 = trace w1 @ es'" "list_all P es'"
    using emitsD [OF assms(2), of w1] f by auto
  show "\<exists>es. trace (snd (try_finally m f w)) = trace w @ es \<and> list_all P es"
    using m f es es' by (cases r2) (auto simp: try_finally_def)
qed

lemma emits_call [intro!]: "P ev \<Longrightarrow> emits P (call ev answer)"
  by (simp add: emits_def call_def)

lemma emits_now [intro!, simp]: "emits P (now E)"
  by (simp add: emits_def now_def)

lemma emits_if [intro!]: "emits P a \<Longrightarrow> emits P b \<Longrightarrow> emits P (if c then a else b)"
  by simp

lemma emits_getAccessToken [intro!]:
  assumes "\<And>a b. P (TokenRequest a b)"
  shows "emits P (getAccessToken E c)"
  using assms
  by (auto simp: emits_def getAccessToken_def bindA_def now_def call_def
      split: option.splits sum.splits)

lemma emits_sendTextMessage [intro!]:
  assumes "\<And>a b. P (TokenRequest a b)" and "\<And>u b t. P (WebhookPost u b t)"
  shows "emits P (sendTextMessage E c hook txt opts)"
  unfolding sendTextMessage_def Let_def using assms by (intro emits_bindA emits_call emits_getAccessToken)

lemma emits_sendMarkdownMessage [intro!]:
  assumes "\<And>a b. P (TokenRequest a b)" and "\<And>u b t. P (WebhookPost u b t)"
  shows "emits P (sendMarkdownMessage E c hook ttl md opts)"
  unfolding sendMarkdownMessage_def Let_def using assms
  by (intro emits_bindA emits_call emits_getAccessToken emits_lift)

lemma emits_sendMessage [intro!]:
  assumes "\<And>a b. P (TokenRequest a b)" and "\<And>u b t. P (WebhookPost u b t)"
  shows "emits P (sendMessage E c hook txt opts)"
  unfolding sendMessage_def Let_def using assms
  by (intro emits_bindA emits_if emits_lift emits_sendMarkdownMessage emits_sendTextMessage)

lemma emits_deliver [intro!]:
  assumes "\<And>a b. P (TokenRequest a b)" and "\<And>u b t. P (WebhookPost u b t)"
  shows "emits P (deliver E c hook d sid payload)"
  unfolding deliver_def using assms
  by (intro emits_try_catch emits_bindA emits_if emits_lift emits_sendMessage emits_ret)

lemma emits_deliver_all [intro!]:
  assumes "\<And>p. emits P (d p)"
  shows "emits P (deliver_all d ps)"
  using assms by (induction ps) auto

lemma emits_dispatch [intro!]:
  assumes "\<And>p. emits P (d p)" and "\<And>f a. P (Host f a)"
  shows "emits P (dispatchReplyFromConfig E d args)"
proof -
  have "emits P (\<lambda>w. (dispatch_outcome E (tick w), w\<lparr>tick := Suc (tick w)\<rparr>))"
    by (simp add: emits_def)
  then show ?thesis
    unfolding dispatchReplyFromConfig_def using assms
    by (intro emits_bindA emits_call emits_deliver_all)
qed

lemma emits_cleanup [intro!]:
  assumes "P MarkDispatchIdle" and "\<And>p. P (ExistsSync p)" and "\<And>p. P (Unlink p)"
  shows "emits P (cleanup E mp)"
  unfolding cleanup_def markDispatchIdle_def using assms
  by (auto split: option.splits intro!: emits_bindA emits_call emits_try_catch)

lemma emits_host [intro!]: "P (Host f args) \<Longrightarrow> emits P (host E f args)"
  unfolding host_def by (intro emits_call)

lemma emits_prepare [intro!]:
  assumes "\<And>a b. P (TokenRequest a b)" and "\<And>u b t. P (WebhookPost u b t)"
    and "\<And>f a. P (Host f a)"
  shows "emits P (prepare E ps content s mp mt)"
  unfolding prepare_def Let_def using assms
  by (intro emits_bindA emits_host emits_lift emits_if emits_try_catch emits_sendTextMessage emits_ret)


lemma new_events_append: "trace w' = trace w @ es \<Longrightarrow> new_events w w' = es"
  by (simp add: new_events_def)

lemma bindA_InrE:
  assumes "bindA m f w = (Inr y, w')"
  obtains x w1 where "m w = (Inr x, w1)" and "f x w1 = (Inr y, w')"
  using assms by (auto simp: bindA_def split: sum.splits prod.splits)

lemma surely_first:
  assumes "surely Q m" and "\<And>x. emits (\<lambda>e. True) (f x)"
  shows "surely Q (bindA m f)"
  unfolding surely_def
proof (intro allI impI)
  fix w y w'
  assume "bindA m f w = (Inr y, w')"
  then obtain x w1 where m: "m w = (Inr x, w1)" and f: "f x w1 = (Inr y, w')"
    by (rule bindA_InrE)
  obtain es' where e2: "trace w' = trace w1 @ es'"
    using emitsD [OF assms(2), of x w1] f by auto
  have q: "list_ex Q (new_events w w1)" using assms(1) m by (auto simp: surely_def)
  have "length (trace w) \<le> length (trace w1) \<or> new_events w w1 = []"
    by (auto simp: new_events_def)
  then show "list_ex Q (new_events w w')"
    using q e2 by (auto simp: new_events_def list_ex_iff)
qed

lemma surely_later:
  assumes "emits (\<lambda>e. True) m" and "\<And>x. surely Q (f x)"
  shows "surely Q (bindA m f)"
  unfolding surely_def
proof (intro allI impI)
  fix w y w'
  assume "bindA m f w = (Inr y, w')"
  then obtain x w1 where m: "m w = (Inr x, w1)" and f: "f x w1 = (Inr y, w')"
    by (rule bindA_InrE)
  obtain es where e1: "trace w1 = trace w @ es"
    using emitsD [OF assms(1), of w] m by auto
  have q: "list_ex Q (new_events w1 w')" using assms(2) f by (auto simp: surely_def)
  then obtain e where e: "e \<in> set (drop (length (trace w1)) (trace w'))" "Q e"
    by (auto simp: new_events_def list_ex_iff)
  have "drop (length (trace w1)) (trace w') = drop (length es) (drop (length (trace w)) (trace w'))"
    using e1 by (simp add: add.commute)
  then have "e \<in> set (drop (length (trace w)) (trace w'))"
    using e(1) by (metis in_set_dropD)
  then show "list_ex Q (new_events w w')"
    using e(2) by (auto simp: new_events_def list_ex_iff)
qed

lemma surely_host: "Q (Host f args) \<Longrightarrow> surely Q (host E f args)"
  by (auto simp: surely_def host_def call_def new_events_def)

lemma prepare_finalizes:
  "surely (\<lambda>e. \<exists>fields. e = Host FinalizeInboundContext fields
                  \<and> opt_get fields (u16 ''MediaPath'') = opt_str mp)
     (prepare E ps content s mp mt)"
  unfolding prepare_def Let_def
  apply (rule surely_later, (rule emits_host emits_lift; simp))
  apply (rule surely_later, (rule emits_host emits_lift; simp))
  apply (rule surely_later, (rule emits_host emits_lift; simp))
  apply (rule surely_later, (rule emits_host emits_lift; simp))
  apply (rule surely_later, (rule emits_host emits_lift; simp))
  apply (rule surely_later, (rule emits_host emits_lift; simp))
  apply (rule surely_later, (rule emits_host emits_lift; simp))
  apply (rule surely_later, (rule emits_host emits_lift; simp))
  apply (rule surely_later, (rule emits_host emits_lift; simp))
  apply (rule surely_first)
   apply (rule surely_host)
   apply (simp add: u16_def)
  apply (intro emits_bindA emits_host emits_lift emits_if emits_try_catch emits_sendTextMessage
      emits_ret; simp)
  done


lemma prepare_media_fields:
  "emits (\<lambda>e. \<forall>fields. e = Host FinalizeInboundContext fields \<longrightarrow>
              opt_get fields (u16 ''MediaPath'') = opt_str mp
              \<and> opt_get fields (u16 ''MediaType'') = opt_str mt
              \<and> opt_get fields (u16 ''MediaUrl'') = opt_str mp)
     (prepare E ps content s mp mt)"
  unfolding prepare_def Let_def
  by (intro emits_bindA emits_host emits_lift emits_if emits_try_catch emits_sendTextMessage
      emits_ret; simp add: u16_def)

lemma downloadMedia_total: "\<exists>m w'. downloadMedia E c code w = (Inr m, w')"
  by (cases "downloadMedia_try E c code w")
     (auto simp: downloadMedia_def try_catch_def ret_def split: sum.splits)

lemma downloadMedia_token_error:
  "getAccessToken E c w = (Inl e, w0) \<Longrightarrow> downloadMedia E c code w = (Inr None, w0)"
  by (simp add: downloadMedia_def downloadMedia_try_def try_catch_def bindA_def ret_def)

lemma downloadMedia_request:
  assumes "getAccessToken E c w = (Inr token, w0)"
  shows "case post_download E (tick w0) code (robotCode c) token of
           Inl e \<Rightarrow> downloadMedia E c code w
                     = (Inr None, w0\<lparr>trace := trace w0 @ [DownloadRequest code (robotCode c) token],
                                    tick := Suc (tick w0)\<rparr>)
         | Inr response_data \<Rightarrow>
             \<not> truthy (opt_get response_data (u16 ''downloadUrl'')) \<longrightarrow>
             downloadMedia E c code w
               = (Inr None, w0\<lparr>trace := trace w0 @ [DownloadRequest code (robotCode c) token],
                              tick := Suc (tick w0)\<rparr>)"
  using assms
  by (simp add: downloadMedia_def downloadMedia_try_def try_catch_def bindA_def ret_def call_def
      Let_def split: sum.splits)

lemma downloadMedia_events:
  assumes "getAccessToken E c w = (Inr token, w0)"
  shows "\<exists>post. trace (snd (downloadMedia E c code w))
                  = trace w0 @ DownloadRequest code (robotCode c) token # post
               \<and> list_all (\<lambda>e. \<not> is_download e) post"
  using assms
  by (auto simp: downloadMedia_def downloadMedia_try_def try_catch_def bindA_def ret_def call_def
      now_def Let_def split: sum.splits prod.splits)

section \<open>Download failures and the rest of the pipeline\<close>

lemma handler_with_media:
  assumes "runtime w" and "extractMessageContent (data ps) = Inr content"
    and "truthy (c_text content)" and "truthy (c_mediaPath content)"
    and "truthy (robotCode (dingtalkConfig ps))"
  shows "handleDingTalkMessage E ps w =
           bindA (downloadMedia E (dingtalkConfig ps) (c_mediaPath content))
             (after_download E ps content) w"
  using assms
  by (simp add: handleDingTalkMessage_def getRuntime_run)

lemma emits_after_download:
  "emits pipeline_event (after_download E ps content media)"
  unfolding after_download_def
  by (intro emits_bindA emits_prepare emits_try_finally emits_dispatch emits_deliver
      emits_cleanup; simp)

lemma dispatch_event:
  assumes "\<And>p. emits (\<lambda>e. True) (d p)"
  shows "\<exists>es. trace (snd (dispatchReplyFromConfig E d args w))
          = trace w @ Host DispatchReplyFromConfig args # es"
proof -
  let ?w1 = "w\<lparr>trace := trace w @ [Host DispatchReplyFromConfig args], tick := Suc (tick w)\<rparr>"
  let ?rest = "bindA (deliver_all d (host_replies E (tick w)))
                 (\<lambda>u w. (dispatch_outcome E (tick w), w\<lparr>tick := Suc (tick w)\<rparr>))"
  have "emits (\<lambda>e. True) (\<lambda>w. (dispatch_outcome E (tick w), w\<lparr>tick := Suc (tick w)\<rparr>))"
    by (simp add: emits_def)
  then have "emits (\<lambda>e. True) ?rest"
    using assms by (intro emits_bindA emits_deliver_all)
  then obtain es where "trace (snd (?rest ?w1)) = trace ?w1 @ es"
    by (rule emitsD)
  moreover have "dispatchReplyFromConfig E d args w = ?rest ?w1"
    by (simp add: dispatchReplyFromConfig_def bindA_def call_def)
  ultimately show ?thesis by simp
qed

lemma one_download_request:
  assumes "runtime w" and "extractMessageContent (data ps) = Inr content"
    and "truthy (c_text content)" and "truthy (c_mediaPath content)"
    and "truthy (robotCode (dingtalkConfig ps))"
    and tok: "getAccessToken E (dingtalkConfig ps) w = (Inr token, w0)"
  shows "filter is_download (new_events w (snd (handleDingTalkMessage E ps w)))
           = [DownloadRequest (c_mediaPath content) (robotCode (dingtalkConfig ps)) token]"
proof -
  let ?dl = "downloadMedia E (dingtalkConfig ps) (c_mediaPath content)"
  obtain m w1 where dl: "?dl w = (Inr m, w1)" using downloadMedia_total by blast
  have h: "handleDingTalkMessage E ps w = after_download E ps content m w1"
    using handler_with_media [OF assms(1-5)] dl by (simp add: bindA_Inr)
  obtain pre where pre: "trace w0 = trace w @ pre" "list_all (\<lambda>e. \<not> is_download e) pre"
    using emitsD [OF emits_getAccessToken, of "\<lambda>e. \<not> is_download e" E "dingtalkConfig ps" w] tok
    by auto
  obtain post where post: "trace w1 = trace w0
         @ DownloadRequest (c_mediaPath content) (robotCode (dingtalkConfig ps)) token # post"
      "list_all (\<lambda>e. \<not> is_download e) post"
    using downloadMedia_events [OF tok, of "c_mediaPath content"] dl by auto
  obtain es where es: "trace (snd (after_download E ps content m w1)) = trace w1 @ es"
      "list_all pipeline_event es"
    using emitsD [OF emits_after_download] by blast
  have "list_all (\<lambda>e. \<not> is_download e) es"
  proof -
    have "pipeline_event e \<Longrightarrow> \<not> is_download e" for e by (cases e) simp_all
    then show ?thesis using es(2) by (auto simp: list_all_iff)
  qed
  then have f: "filter is_download es = []" "filter is_download pre = []"
    "filter is_download post = []"
    using pre(2) post(2) by (auto simp: list_all_iff filter_empty_conv)
  have "new_events w (snd (handleDingTalkMessage E ps w))
          = pre @ DownloadRequest (c_mediaPath content) (robotCode (dingtalkConfig ps)) token
              # post @ es"
    using h pre(1) post(1) es(1) by (simp add: new_events_def)
  then show ?thesis using f by simp
qed

lemma dispatched_without_media:
  assumes "runtime w" and "extractMessageContent (data ps) = Inr content"
    and "truthy (c_text content)" and "truthy (c_mediaPath content)"
    and "truthy (robotCode (dingtalkConfig ps))"
    and dl: "downloadMedia E (dingtalkConfig ps) (c_mediaPath content) w = (Inr None, w1)"
    and pr: "prepare E ps content (sender_of (data ps)) None None w1 = (Inr args, w2)"
  shows "list_ex (\<lambda>e. \<exists>fields. e = Host FinalizeInboundContext fields
                      \<and> opt_get fields (u16 ''MediaPath'') = JUndefined) (new_events w1 w2)"
    and "list_all (\<lambda>e. \<forall>fields. e = Host FinalizeInboundContext fields
                      \<longrightarrow> opt_get fields (u16 ''MediaPath'') = JUndefined) (new_events w1 w2)"
    and "Host DispatchReplyFromConfig args
           \<in> set (new_events w2 (snd (handleDingTalkMessage E ps w)))"
proof -
  show "list_ex (\<lambda>e. \<exists>fields. e = Host FinalizeInboundContext fields
                      \<and> opt_get fields (u16 ''MediaPath'') = JUndefined) (new_events w1 w2)"
    using prepare_finalizes [where mp = None and mt = None and E = E
          and ps = ps and content = content and s = "sender_of (data ps)"] pr
    by (simp add: surely_def opt_str_def)
  obtain es where es: "trace w2 = trace w1 @ es"
    "list_all (\<lambda>e. \<forall>fields. e = Host FinalizeInboundContext fields \<longrightarrow>
              opt_get fields (u16 ''MediaPath'') = opt_str None
              \<and> opt_get fields (u16 ''MediaType'') = opt_str None
              \<and> opt_get fields (u16 ''MediaUrl'') = opt_str None) es"
    using emitsD [OF prepare_media_fields [where mp = None and mt = None and E = E
          and ps = ps and content = content and s = "sender_of (data ps)"], of w1] pr
    by auto
  then show "list_all (\<lambda>e. \<forall>fields. e = Host FinalizeInboundContext fields
                      \<longrightarrow> opt_get fields (u16 ''MediaPath'') = JUndefined) (new_events w1 w2)"
    by (simp add: new_events_def opt_str_def list_all_iff)
  let ?d = "deliver E (dingtalkConfig ps) (sessionWebhook ps) (isDirect (sender_of (data ps)))
             (senderId (sender_of (data ps)))"
  have h: "handleDingTalkMessage E ps w
             = try_finally (dispatchReplyFromConfig E ?d args) (cleanup E None) w2"
    using handler_with_media [OF assms(1-5)] dl pr
    by (simp add: bindA_Inr after_download_def)
  obtain r w3 where d: "dispatchReplyFromConfig E ?d args w2 = (r, w3)"
    by (cases "dispatchReplyFromConfig E ?d args w2")
  obtain ds where ds: "trace w3 = trace w2 @ Host DispatchReplyFromConfig args # ds"
    using dispatch_event [of ?d E args w2] d by (auto intro!: emits_deliver)
  obtain cs where cs: "trace (snd (try_finally (dispatchReplyFromConfig E ?d args)
                                     (cleanup E None) w2)) = trace w3 @ cs"
  proof -
    obtain r2 w4 where c: "cleanup E None w3 = (r2, w4)" by (cases "cleanup E None w3")
    obtain cs where "trace w4 = trace w3 @ cs"
      using emitsD [OF emits_cleanup, of "\<lambda>e. True" E None w3] c by auto
    then have "trace (snd (try_finally (dispatchReplyFromConfig E ?d args) (cleanup E None) w2))
                 = trace w3 @ cs"
      using d c by (cases r2) (simp_all add: try_finally_def)
    then show ?thesis by (rule that)
  qed
  show "Host DispatchReplyFromConfig args
           \<in> set (new_events w2 (snd (handleDingTalkMessage E ps w)))"
    using h ds cs by (simp add: new_events_def)
qed


lemma downloadMedia_any_failure:
  "downloadMedia_try E c code w = (Inl e, w1) \<Longrightarrow> downloadMedia E c code w = (Inr None, w1)"
  by (simp add: downloadMedia_def try_catch_def ret_def)

lemma downloadMedia_transfer:
  assumes "getAccessToken E c w = (Inr token, w0)"
    and "post_download E (tick w0) code (robotCode c) token = Inr response_data"
    and "truthy (opt_get response_data (u16 ''downloadUrl''))"
  shows "case get_media E (Suc (tick w0)) (opt_get response_data (u16 ''downloadUrl'')) of
           Inl e \<Rightarrow> fst (downloadMedia E c code w) = Inr None
         | Inr header \<Rightarrow>
             (\<forall>e. write_file E (tick w0 + 3)
                    (tmp_path E (u16 ''dingtalk_'' @ time_to_string (clock E (tick w0 + 2))
                                 @ u16 ''.'' @ extension (content_type_of header))) = Inl e
                \<longrightarrow> fst (downloadMedia E c code w) = Inr None)"
  using assms
  by (simp add: downloadMedia_def downloadMedia_try_def try_catch_def bindA_def ret_def call_def
      now_def Let_def eval_nat_numeral split: sum.splits)

text \<open>
  C7. \<open>downloadMedia\<close> never throws: every run returns a value, and whatever makes
  the body of its \<open>try\<close> throw gives \<open>null\<close>: a failed token request, a failed
  download request, a failed fetch of the download URL, a failed write of the temp
  file; a reply without \<open>downloadUrl\<close> gives \<open>null\<close> too. For an event with text, a media reference and a configured
  \<open>robotCode\<close>, the handler makes exactly one download request when the token is
  there (for the event's download code); and when the download returns \<open>null\<close>
  and steps 3 to 6 go through, the fields handed to \<open>finalizeInboundContext\<close> have
  \<open>MediaPath\<close> undefined and \<open>dispatchReplyFromConfig\<close> is called with the
  resulting context.
\<close>

theorem download_failure_not_fatal:
  "(\<exists>m w'. downloadMedia E dc code w = (Inr m, w'))
   \<and> (\<forall>e w0. getAccessToken E dc w = (Inl e, w0) \<longrightarrow>
         downloadMedia E dc code w = (Inr None, w0))
   \<and> (\<forall>token w0. getAccessToken E dc w = (Inr token, w0) \<longrightarrow>
         (case post_download E (tick w0) code (robotCode dc) token of
            Inl e \<Rightarrow> fst (downloadMedia E dc code w) = Inr None
          | Inr response_data \<Rightarrow>
              \<not> truthy (opt_get response_data (u16 ''downloadUrl'')) \<longrightarrow>
              fst (downloadMedia E dc code w) = Inr None))
   \<and> (\<forall>e w1. downloadMedia_try E dc code w = (Inl e, w1) \<longrightarrow>
         downloadMedia E dc code w = (Inr None, w1))
   \<and> (\<forall>token w0 response_data.
         getAccessToken E dc w = (Inr token, w0)
         \<and> post_download E (tick w0) code (robotCode dc) token = Inr response_data
         \<and> truthy (opt_get response_data (u16 ''downloadUrl'')) \<longrightarrow>
         (case get_media E (Suc (tick w0)) (opt_get response_data (u16 ''downloadUrl'')) of
            Inl e \<Rightarrow> fst (downloadMedia E dc code w) = Inr None
          | Inr header \<Rightarrow>
              (\<forall>e. write_file E (tick w0 + 3)
                     (tmp_path E (u16 ''dingtalk_'' @ time_to_string (clock E (tick w0 + 2))
                                  @ u16 ''.'' @ extension (content_type_of header))) = Inl e
                 \<longrightarrow> fst (downloadMedia E dc code w) = Inr None)))
   \<and> (runtime w \<and> extractMessageContent (data ps) = Inr content \<and> truthy (c_text content)
        \<and> truthy (c_mediaPath content) \<and> truthy (robotCode (dingtalkConfig ps)) \<longrightarrow>
        (\<forall>token w0. getAccessToken E (dingtalkConfig ps) w = (Inr token, w0) \<longrightarrow>
           filter is_download (new_events w (snd (handleDingTalkMessage E ps w)))
             = [DownloadRequest (c_mediaPath content) (robotCode (dingtalkConfig ps)) token])
        \<and> (\<forall>w1 args w2.
              downloadMedia E (dingtalkConfig ps) (c_mediaPath content) w = (Inr None, w1)
              \<and> prepare E ps content (sender_of (data ps)) None None w1 = (Inr args, w2) \<longrightarrow>
              list_ex (\<lambda>e. \<exists>fields. e = Host FinalizeInboundContext fields
                         \<and> opt_get fields (u16 ''MediaPath'') = JUndefined) (new_events w1 w2)
              \<and> list_all (\<lambda>e. \<forall>fields. e = Host FinalizeInboundContext fields
                         \<longrightarrow> opt_get fields (u16 ''MediaPath'') = JUndefined) (new_events w1 w2)
              \<and> Host DispatchReplyFromConfig args
                   \<in> set (new_events w2 (snd (handleDingTalkMessage E ps w)))))"
proof -
  have f': "\<forall>e w1. downloadMedia_try E dc code w = (Inl e, w1) \<longrightarrow>
         downloadMedia E dc code w = (Inr None, w1)"
    using downloadMedia_any_failure by blast
  have g': "\<forall>token w0 response_data.
         getAccessToken E dc w = (Inr token, w0)
         \<and> post_download E (tick w0) code (robotCode dc) token = Inr response_data
         \<and> truthy (opt_get response_data (u16 ''downloadUrl'')) \<longrightarrow>
         (case get_media E (Suc (tick w0)) (opt_get response_data (u16 ''downloadUrl'')) of
            Inl e \<Rightarrow> fst (downloadMedia E dc code w) = Inr None
          | Inr header \<Rightarrow>
              (\<forall>e. write_file E (tick w0 + 3)
                     (tmp_path E (u16 ''dingtalk_'' @ time_to_string (clock E (tick w0 + 2))
                                  @ u16 ''.'' @ extension (content_type_of header))) = Inl e
                 \<longrightarrow> fst (downloadMedia E dc code w) = Inr None))"
  proof (intro allI impI)
    fix token w0 response_data
    assume h: "getAccessToken E dc w = (Inr token, w0)
         \<and> post_download E (tick w0) code (robotCode dc) token = Inr response_data
         \<and> truthy (opt_get response_data (u16 ''downloadUrl''))"
    then have h1: "getAccessToken E dc w = (Inr token, w0)"
      and h2: "post_download E (tick w0) code (robotCode dc) token = Inr response_data"
      and h3: "truthy (opt_get response_data (u16 ''downloadUrl''))" by simp_all
    show "case get_media E (Suc (tick w0)) (opt_get response_data (u16 ''downloadUrl'')) of
            Inl e \<Rightarrow> fst (downloadMedia E dc code w) = Inr None
          | Inr header \<Rightarrow>
              (\<forall>e. write_file E (tick w0 + 3)
                     (tmp_path E (u16 ''dingtalk_'' @ time_to_string (clock E (tick w0 + 2))
                                  @ u16 ''.'' @ extension (content_type_of header))) = Inl e
                 \<longrightarrow> fst (downloadMedia E dc code w) = Inr None)"
      by (rule downloadMedia_transfer [OF h1 h2 h3])
  qed
  have a: "\<exists>m w'. downloadMedia E dc code w = (Inr m, w')"
    by (rule downloadMedia_total)
  have b: "downloadMedia E dc code w = (Inr None, w0)"
    if "getAccessToken E dc w = (Inl e, w0)" for e w0
    using that by (rule downloadMedia_token_error)
  have c: "case post_download E (tick w0) code (robotCode dc) token of
            Inl e \<Rightarrow> fst (downloadMedia E dc code w) = Inr None
          | Inr response_data \<Rightarrow>
              \<not> truthy (opt_get response_data (u16 ''downloadUrl'')) \<longrightarrow>
              fst (downloadMedia E dc code w) = Inr None"
    if "getAccessToken E dc w = (Inr token, w0)" for token w0
    using downloadMedia_request [OF that, of code] by (auto split: sum.splits)
  have d: "filter is_download (new_events w (snd (handleDingTalkMessage E ps w)))
             = [DownloadRequest (c_mediaPath content) (robotCode (dingtalkConfig ps)) token]"
    if "runtime w \<and> extractMessageContent (data ps) = Inr content \<and> truthy (c_text content)
        \<and> truthy (c_mediaPath content) \<and> truthy (robotCode (dingtalkConfig ps))"
      and "getAccessToken E (dingtalkConfig ps) w = (Inr token, w0)" for token w0
    using that by (intro one_download_request) simp_all
  have e: "list_ex (\<lambda>e. \<exists>fields. e = Host FinalizeInboundContext fields
                         \<and> opt_get fields (u16 ''MediaPath'') = JUndefined) (new_events w1 w2)
              \<and> list_all (\<lambda>e. \<forall>fields. e = Host FinalizeInboundContext fields
                         \<longrightarrow> opt_get fields (u16 ''MediaPath'') = JUndefined) (new_events w1 w2)
              \<and> Host DispatchReplyFromConfig args
                   \<in> set (new_events w2 (snd (handleDingTalkMessage E ps w)))"
    if h: "runtime w \<and> extractMessageContent (data ps) = Inr content \<and> truthy (c_text content)
        \<and> truthy (c_mediaPath content) \<and> truthy (robotCode (dingtalkConfig ps))"
      and g: "downloadMedia E (dingtalkConfig ps) (c_mediaPath content) w = (Inr None, w1)
              \<and> prepare E ps content (sender_of (data ps)) None None w1 = (Inr args, w2)"
    for w1 args w2
  proof -
    from h have h1: "runtime w" and h2: "extractMessageContent (data ps) = Inr content"
      and h3: "truthy (c_text content)" and h4: "truthy (c_mediaPath content)"
      and h5: "truthy (robotCode (dingtalkConfig ps))" by simp_all
    from g have g1: "downloadMedia E (dingtalkConfig ps) (c_mediaPath content) w = (Inr None, w1)"
      and g2: "prepare E ps content (sender_of (data ps)) None None w1 = (Inr args, w2)"
      by simp_all
    show ?thesis
      using dispatched_without_media [OF h1 h2 h3 h4 h5 g1 g2] by simp
  qed
  have b': "\<forall>e w0. getAccessToken E dc w = (Inl e, w0) \<longrightarrow>
         downloadMedia E dc code w = (Inr None, w0)"
    using b by blast
  have c': "\<forall>token w0. getAccessToken E dc w = (Inr token, w0) \<longrightarrow>
         (case post_download E (tick w0) code (robotCode dc) token of
            Inl e \<Rightarrow> fst (downloadMedia E dc code w) = Inr None
          | Inr response_data \<Rightarrow>
              \<not> truthy (opt_get response_data (u16 ''downloadUrl'')) \<longrightarrow>
              fst (downloadMedia E dc code w) = Inr None)"
    using c by blast
  have de: "runtime w \<and> extractMessageContent (data ps) = Inr content \<and> truthy (c_text content)
        \<and> truthy (c_mediaPath content) \<and> truthy (robotCode (dingtalkConfig ps)) \<longrightarrow>
        (\<forall>token w0. getAccessToken E (dingtalkConfig ps) w = (Inr token, w0) \<longrightarrow>
           filter is_download (new_events w (snd (handleDingTalkMessage E ps w)))
             = [DownloadRequest (c_mediaPath content) (robotCode (dingtalkConfig ps)) token])
        \<and> (\<forall>w1 args w2.
              downloadMedia E (dingtalkConfig ps) (c_mediaPath content) w = (Inr None, w1)
              \<and> prepare E ps content (sender_of (data ps)) None None w1 = (Inr args, w2) \<longrightarrow>
              list_ex (\<lambda>e. \<exists>fields. e = Host FinalizeInboundContext fields
                         \<and> opt_get fields (u16 ''MediaPath'') = JUndefined) (new_events w1 w2)
              \<and> list_all (\<lambda>e. \<forall>fields. e = Host FinalizeInboundContext fields
                         \<longrightarrow> opt_get fields (u16 ''MediaPath'') = JUndefined) (new_events w1 w2)
              \<and> Host DispatchReplyFromConfig args
                   \<in> set (new_events w2 (snd (handleDingTalkMessage E ps w))))"
  proof (intro impI conjI allI)
    fix token w0
    assume "runtime w \<and> extractMessageContent (data ps) = Inr content \<and> truthy (c_text content)
        \<and> truthy (c_mediaPath content) \<and> truthy (robotCode (dingtalkConfig ps))"
      and "getAccessToken E (dingtalkConfig ps) w = (Inr token, w0)"
    then show "filter is_download (new_events w (snd (handleDingTalkMessage E ps w)))
             = [DownloadRequest (c_mediaPath content) (robotCode (dingtalkConfig ps)) token]"
      by (rule d)
  next
    fix w1 args w2
    assume h: "runtime w \<and> extractMessageContent (data ps) = Inr content \<and> truthy (c_text content)
        \<and> truthy (c_mediaPath content) \<and> truthy (robotCode (dingtalkConfig ps))"
      and g: "downloadMedia E (dingtalkConfig ps) (c_mediaPath content) w = (Inr None, w1)
              \<and> prepare E ps content (sender_of (data ps)) None None w1 = (Inr args, w2)"
    note r = e [OF h g]
    show "list_ex (\<lambda>e. \<exists>fields. e = Host FinalizeInboundContext fields
                         \<and> opt_get fields (u16 ''MediaPath'') = JUndefined) (new_events w1 w2)"
      using r by (rule conjunct1)
    show "list_all (\<lambda>e. \<forall>fields. e = Host FinalizeInboundContext fields
                         \<longrightarrow> opt_get fields (u16 ''MediaPath'') = JUndefined) (new_events w1 w2)"
      using r by (elim conjE)
    show "Host DispatchReplyFromConfig args
                   \<in> set (new_events w2 (snd (handleDingTalkMessage E ps w)))"
      using r by (elim conjE)
  qed
  show ?thesis
    by (rule conjI [OF a conjI [OF b' conjI [OF c' conjI [OF f' conjI [OF g' de]]]]])
qed


section \<open>Cleaning up after the dispatch\<close>

lemma cleanup_run:
  assumes "p \<noteq> []" and "mark_idle E (tick w) = Inr ()"
  shows "cleanup E (Some p) w =
     (Inr (), w\<lparr>trace := trace w @ (if exists_sync E (Suc (tick w)) p
                                      then [MarkDispatchIdle, ExistsSync p, Unlink p]
                                      else [MarkDispatchIdle, ExistsSync p]),
                 tick := tick w + (if exists_sync E (Suc (tick w)) p then 3 else 2)\<rparr>)"
  using assms
  by (auto simp: cleanup_def markDispatchIdle_def bindA_def call_def try_catch_def ret_def
      split: sum.splits)

text \<open>
  When the dispatch is reached. Take an event for which a temp file was downloaded,
  let steps 3 to 6 go through and let \<open>markDispatchIdle\<close> return. Whatever the
  outcome \<open>r\<close> of the dispatch, a return or an exception, the handler ends with that
  same outcome after marking the dispatcher idle and asking whether the file exists;
  when it exists the file is deleted, and whether the deletion succeeds or throws
  makes no difference to the outcome.
\<close>

theorem cleanup_on_every_outcome:
  assumes "runtime w"
    and "extractMessageContent (data ps) = Inr content" and "truthy (c_text content)"
    and "truthy (c_mediaPath content)" and "truthy (robotCode (dingtalkConfig ps))"
    and "downloadMedia E (dingtalkConfig ps) (c_mediaPath content) w = (Inr (Some m), w1)"
    and "path m \<noteq> []"
    and "prepare E ps content (sender_of (data ps)) (Some (path m)) (Some (mimeType m)) w1
           = (Inr args, w2)"
    and "dispatchReplyFromConfig E
           (deliver E (dingtalkConfig ps) (sessionWebhook ps) (isDirect (sender_of (data ps)))
              (senderId (sender_of (data ps)))) args w2 = (r, w3)"
    and "mark_idle E (tick w3) = Inr ()"
  shows "handleDingTalkMessage E ps w =
           (r, w3\<lparr>trace := trace w3 @ (if exists_sync E (Suc (tick w3)) (path m)
                                         then [MarkDispatchIdle, ExistsSync (path m), Unlink (path m)]
                                         else [MarkDispatchIdle, ExistsSync (path m)]),
                    tick := tick w3 + (if exists_sync E (Suc (tick w3)) (path m) then 3 else 2)\<rparr>)"
  using assms
  by (simp add: handler_with_media after_download_def bindA_Inr
      try_finally_run [OF _ cleanup_run])

section \<open>The pipeline goes through when the host answers\<close>

lemma of_char_word_inject: "(of_char c :: 16 word) = of_char d \<longleftrightarrow> c = d"
proof
  assume "(of_char c :: 16 word) = of_char d"
  then have "(of_nat (of_char c) :: 16 word) = of_nat (of_char d)"
    by (simp only: of_nat_of_char)
  then have "unat (of_nat (of_char c) :: 16 word) = unat (of_nat (of_char d) :: 16 word)"
    by simp
  moreover have "(of_char x :: nat) < 2 ^ 16" for x
    by (rule less_le_trans [OF nat_of_char_less_256]) simp
  ultimately have "(of_char c :: nat) = of_char d"
    by (simp add: unat_of_nat take_bit_nat_eq_self)
  then show "c = d" by simp
qed simp

lemma u16_inject [simp]: "u16 a = u16 b \<longleftrightarrow> a = b"
  unfolding u16_def
  by (rule inj_map_eq_map) (simp add: inj_def of_char_word_inject)

lemma picture_decoded:
  "extractMessageContent (data (example_params picture_event)) = Inr picture_content"
  by (simp add: example_params_def picture_event_def extractMessageContent_def picture_content_def
      js_or_def)


lemma returns_bindA:
  assumes "returns Q m" and "\<And>x. Q x \<Longrightarrow> returns R (f x)"
  shows "returns R (bindA m f)"
  unfolding returns_def
proof
  fix w
  obtain x w1 where m: "m w = (Inr x, w1)" "Q x"
    using assms(1) unfolding returns_def by blast
  obtain y w2 where "f x w1 = (Inr y, w2)" "R y"
    using assms(2) [OF m(2)] unfolding returns_def by blast
  then show "\<exists>y w'. bindA m f w = (Inr y, w') \<and> R y"
    using m by (simp add: bindA_Inr)
qed

lemma returns_ret: "Q x \<Longrightarrow> returns Q (ret x)"
  by (simp add: returns_def ret_def)

lemma returns_lift: "r = Inr x \<Longrightarrow> Q x \<Longrightarrow> returns Q (lift r)"
  by (simp add: returns_def lift_def)

lemma returns_host: "host_obj E \<Longrightarrow> returns is_obj (host E f args)"
  unfolding returns_def host_obj_def host_def call_def
  by (metis is_obj.simps(1))

lemma returns_swallow: "returns (\<lambda>u. True) (try_catch m (\<lambda>err. ret ()))"
  unfolding returns_def try_catch_def ret_def
  by (auto split: sum.splits prod.splits)

lemma to_string_wire: "str_or_absent v \<Longrightarrow> \<exists>s. js_to_string v = Inr s"
  by (cases v) simp_all

lemma prepare_returns:
  assumes h: "host_obj E" and c: "\<not> absent (cfg ps)"
    and sf: "str_or_absent (senderId s)" "str_or_absent (senderName s)"
      "str_or_absent (groupId s)" "str_or_absent (groupName s)"
    and t: "\<exists>txt. c_text content = JStr txt"
  shows "returns (\<lambda>args. True) (prepare E ps content s mp mt)"
proof -
  obtain i where i: "js_to_string (senderId s) = Inr i"
    using to_string_wire [OF sf(1)] by blast
  obtain n where n: "js_to_string (senderName s) = Inr n"
    using to_string_wire [OF sf(2)] by blast
  obtain g where gi: "js_to_string (groupId s) = Inr g"
    using to_string_wire [OF sf(3)] by blast
  obtain gn where gn: "js_to_string (groupName s) = Inr gn"
    using to_string_wire [OF sf(4)] by blast
  note conv = i n gi gn
  obtain body where body: "c_text content = JStr body" using t by blast
  have g: "\<exists>v. get x k = Inr v" if "is_obj x" for x k
    using that by (cases x) simp_all
  have gc: "\<exists>v. get (cfg ps) k = Inr v" for k
    using c by (cases "cfg ps") simp_all
  show ?thesis
    unfolding prepare_def Let_def
    apply (rule returns_bindA [OF returns_host [OF h]])
    apply (rule returns_bindA [where Q = "\<lambda>x. True"])
     apply (insert gc [of "u16 ''session''"], erule exE, erule returns_lift, simp) []
    apply (rule returns_bindA [where Q = "\<lambda>x. True"])
     apply (drule g [where k = "u16 ''agentId''"], erule exE, erule returns_lift, simp) []
    apply (rule returns_bindA [OF returns_host [OF h]])
    apply (rule returns_bindA [OF returns_host [OF h]])
    apply (rule returns_bindA [OF returns_host [OF h]])
    apply (rule returns_bindA [where Q = "\<lambda>x. True"])
     apply (rule returns_lift [where x = "if isDirect s then n @ u16 '' ('' @ i @ u16 '')''
                                          else gn @ u16 '' - '' @ n"]; simp add: conv)
    apply (rule returns_bindA [OF returns_host [OF h]])
    apply (rule returns_bindA [where Q = "\<lambda>x. True"])
     apply (rule returns_lift [where x = "if isDirect s then u16 ''dingtalk:'' @ i
                                          else u16 ''dingtalk:group:'' @ g"]; simp add: conv)
    apply (rule returns_bindA [OF returns_host [OF h]])
    apply (rule returns_bindA [where Q = "\<lambda>x. True"])
     apply (drule g [where k = "u16 ''SessionKey''"], erule exE, erule returns_lift, simp) []
    apply (rule returns_bindA [OF returns_host [OF h]])
    apply (rule returns_bindA [where Q = "\<lambda>x. True"])
     apply (rule returns_lift [where x = "()"]; simp add: inbound_log_line_def conv body)
    apply (rule returns_bindA [where Q = "\<lambda>x. True"])
     apply (simp add: returns_swallow returns_ret)
    apply (rule returns_bindA [OF returns_host [OF h]])
    apply (rule returns_bindA [where Q = "\<lambda>x. True"])
     apply (drule g [where k = "u16 ''dispatcher''"], erule exE, erule returns_lift, simp) []
    apply (rule returns_ret, simp)
    done
qed


lemma example_host_obj: "host_obj example_env" "host_obj download_ok_env"
  by (simp_all add: host_obj_def example_env_def download_ok_env_def)

lemma picture_sender:
  "str_or_absent (senderId (sender_of picture_event))"
  "str_or_absent (senderName (sender_of picture_event))"
  "str_or_absent (groupId (sender_of picture_event))"
  "str_or_absent (groupName (sender_of picture_event))"
  by (simp_all add: sender_of_def picture_event_def js_or_def)

lemma example_download_fails:
  "downloadMedia example_env example_config (JStr (u16 ''code1'')) empty_world
     = (Inr None, failed_download_world)"
  using downloadMedia_request [OF example_token(1), of "JStr (u16 ''code1'')"]
  by (simp add: example_env_def example_config_def failed_download_world_def token_world_def)

lemma example_download_ok:
  "downloadMedia download_ok_env example_config (JStr (u16 ''code1'')) empty_world
     = (Inr (Some downloaded_file), downloaded_world)"
  by (simp add: downloadMedia_def downloadMedia_try_def try_catch_def bindA_def ret_def call_def
      now_def Let_def getAccessToken_def download_ok_env_def example_env_def example_config_def
      empty_world_def downloaded_world_def downloaded_file_def extension_def time_to_string_def
      content_type_of_def)
     (simp add: u16_def)

theorem cleanup_on_every_outcome_witness:
  "\<exists>before. trace (snd (handleDingTalkMessage download_ok_env (example_params picture_event)
                          empty_world))
      = before @ [MarkDispatchIdle, ExistsSync (u16 ''/tmp/dingtalk_1000004.png''),
                  Unlink (u16 ''/tmp/dingtalk_1000004.png'')]"
proof -
  let ?ps = "example_params picture_event"
  have ps: "data ?ps = picture_event" "dingtalkConfig ?ps = example_config"
    "cfg ?ps = JObj []" "sessionWebhook ?ps = example_hook"
    by (simp_all add: example_params_def)
  have 1: "runtime empty_world" by (simp add: empty_world_def)
  have 3: "truthy (c_text picture_content)" "truthy (c_mediaPath picture_content)"
    "truthy (robotCode (dingtalkConfig ?ps))"
    by (simp_all add: picture_content_def label_picture_def ps example_config_def)
  have 4: "downloadMedia download_ok_env (dingtalkConfig ?ps) (c_mediaPath picture_content)
             empty_world = (Inr (Some downloaded_file), downloaded_world)"
    using example_download_ok by (simp add: ps picture_content_def)
  have 5: "path downloaded_file \<noteq> []" by (simp add: downloaded_file_def)
  have "returns (\<lambda>args. True)
          (prepare download_ok_env ?ps picture_content (sender_of (data ?ps))
             (Some (path downloaded_file)) (Some (mimeType downloaded_file)))"
    by (rule prepare_returns)
       (simp_all add: example_host_obj ps picture_sender picture_content_def)
  then obtain args w2 where 6:
    "prepare download_ok_env ?ps picture_content (sender_of (data ?ps))
       (Some (path downloaded_file)) (Some (mimeType downloaded_file)) downloaded_world
       = (Inr args, w2)"
    unfolding returns_def by blast
  obtain r w3 where 7:
    "dispatchReplyFromConfig download_ok_env
       (deliver download_ok_env (dingtalkConfig ?ps) (sessionWebhook ?ps)
          (isDirect (sender_of (data ?ps))) (senderId (sender_of (data ?ps)))) args w2 = (r, w3)"
    by (cases "dispatchReplyFromConfig download_ok_env
       (deliver download_ok_env (dingtalkConfig ?ps) (sessionWebhook ?ps)
          (isDirect (sender_of (data ?ps))) (senderId (sender_of (data ?ps)))) args w2")
  have e: "exists_sync download_ok_env k p" for k p
    by (simp add: download_ok_env_def example_env_def)
  have 8: "mark_idle download_ok_env (tick w3) = Inr ()"
    by (simp add: download_ok_env_def example_env_def)
  show ?thesis
    using cleanup_on_every_outcome [OF 1 picture_decoded 3 4 5 6 7 8]
    by (simp add: e downloaded_file_def)
qed


theorem download_failure_not_fatal_witness:
  "fst (downloadMedia example_env example_config (JStr (u16 ''code1'')) empty_world) = Inr None
   \<and> filter is_download
         (new_events empty_world
            (snd (handleDingTalkMessage example_env (example_params picture_event) empty_world)))
       = [DownloadRequest (JStr (u16 ''code1'')) (JStr (u16 ''robot'')) (u16 ''tok'')]
   \<and> (\<exists>args w2.
         prepare example_env (example_params picture_event) picture_content
           (sender_of picture_event) None None failed_download_world = (Inr args, w2)
         \<and> list_ex (\<lambda>e. \<exists>fields. e = Host FinalizeInboundContext fields
                        \<and> opt_get fields (u16 ''MediaPath'') = JUndefined)
               (new_events failed_download_world w2)
         \<and> Host DispatchReplyFromConfig args
              \<in> set (new_events w2
                    (snd (handleDingTalkMessage example_env (example_params picture_event)
                            empty_world))))
   \<and> fst (downloadMedia get_fails_env example_config (JStr (u16 ''code1'')) empty_world)
       = Inr None
   \<and> fst (downloadMedia write_fails_env example_config (JStr (u16 ''code1'')) empty_world)
       = Inr None"
proof -
  let ?ps = "example_params picture_event"
  let ?reply = "JObj [(u16 ''downloadUrl'', JStr (u16 ''https://file''))]"
  have ps: "data ?ps = picture_event" "dingtalkConfig ?ps = example_config"
    "cfg ?ps = JObj []" "sessionWebhook ?ps = example_hook"
    by (simp_all add: example_params_def)
  have url: "truthy (opt_get ?reply (u16 ''downloadUrl''))" by simp
  have gt: "getAccessToken get_fails_env example_config empty_world
              = (Inr (u16 ''tok''), token_world)"
    by (simp add: getAccessToken_def bindA_def now_def call_def example_env_def
        download_ok_env_def get_fails_env_def example_config_def empty_world_def token_world_def)
  have gp: "post_download get_fails_env (tick token_world) (JStr (u16 ''code1''))
              (robotCode example_config) (u16 ''tok'') = Inr ?reply"
    by (simp add: get_fails_env_def download_ok_env_def)
  have gg: "get_media get_fails_env k url = Inl (Error (u16 ''Network Error''))" for k url
    by (simp add: get_fails_env_def)
  have "\<forall>token w0 response_data.
         getAccessToken get_fails_env example_config empty_world = (Inr token, w0)
         \<and> post_download get_fails_env (tick w0) (JStr (u16 ''code1'')) (robotCode example_config)
               token = Inr response_data
         \<and> truthy (opt_get response_data (u16 ''downloadUrl'')) \<longrightarrow>
         (case get_media get_fails_env (Suc (tick w0))
                 (opt_get response_data (u16 ''downloadUrl'')) of
            Inl e \<Rightarrow> fst (downloadMedia get_fails_env example_config (JStr (u16 ''code1''))
                          empty_world) = Inr None
          | Inr header \<Rightarrow>
              (\<forall>e. write_file get_fails_env (tick w0 + 3)
                     (tmp_path get_fails_env
                        (u16 ''dingtalk_'' @ time_to_string (clock get_fails_env (tick w0 + 2))
                         @ u16 ''.'' @ extension (content_type_of header))) = Inl e
                 \<longrightarrow> fst (downloadMedia get_fails_env example_config (JStr (u16 ''code1''))
                           empty_world) = Inr None))"
    using download_failure_not_fatal [of get_fails_env example_config "JStr (u16 ''code1'')"
      empty_world ?ps picture_content]
    by blast
  from this [rule_format, OF conjI [OF gt conjI [OF gp url]]]
  have g: "fst (downloadMedia get_fails_env example_config (JStr (u16 ''code1'')) empty_world)
             = Inr None"
    by (simp add: gg)
  have wt: "getAccessToken write_fails_env example_config empty_world
              = (Inr (u16 ''tok''), token_world)"
    by (simp add: getAccessToken_def bindA_def now_def call_def example_env_def
        download_ok_env_def write_fails_env_def example_config_def empty_world_def
        token_world_def)
  have wp: "post_download write_fails_env (tick token_world) (JStr (u16 ''code1''))
              (robotCode example_config) (u16 ''tok'') = Inr ?reply"
    by (simp add: write_fails_env_def download_ok_env_def)
  have wg: "get_media write_fails_env k url = Inr (Some (u16 ''image/png''))" for k url
    by (simp add: write_fails_env_def download_ok_env_def example_env_def)
  have ww: "write_file write_fails_env k p = Inl (Error (u16 ''ENOSPC''))" for k p
    by (simp add: write_fails_env_def)
  have "\<forall>token w0 response_data.
         getAccessToken write_fails_env example_config empty_world = (Inr token, w0)
         \<and> post_download write_fails_env (tick w0) (JStr (u16 ''code1''))
               (robotCode example_config) token = Inr response_data
         \<and> truthy (opt_get response_data (u16 ''downloadUrl'')) \<longrightarrow>
         (case get_media write_fails_env (Suc (tick w0))
                 (opt_get response_data (u16 ''downloadUrl'')) of
            Inl e \<Rightarrow> fst (downloadMedia write_fails_env example_config (JStr (u16 ''code1''))
                          empty_world) = Inr None
          | Inr header \<Rightarrow>
              (\<forall>e. write_file write_fails_env (tick w0 + 3)
                     (tmp_path write_fails_env
                        (u16 ''dingtalk_'' @ time_to_string (clock write_fails_env (tick w0 + 2))
                         @ u16 ''.'' @ extension (content_type_of header))) = Inl e
                 \<longrightarrow> fst (downloadMedia write_fails_env example_config (JStr (u16 ''code1''))
                           empty_world) = Inr None))"
    using download_failure_not_fatal [of write_fails_env example_config "JStr (u16 ''code1'')"
      empty_world ?ps picture_content]
    by blast
  from this [rule_format, OF conjI [OF wt conjI [OF wp url]]]
  have v: "fst (downloadMedia write_fails_env example_config (JStr (u16 ''code1'')) empty_world)
             = Inr None"
    by (simp add: wg ww)
  have conds: "runtime empty_world \<and> extractMessageContent (data ?ps) = Inr picture_content
     \<and> truthy (c_text picture_content) \<and> truthy (c_mediaPath picture_content)
     \<and> truthy (robotCode (dingtalkConfig ?ps))"
    using picture_decoded
    by (simp add: picture_content_def label_picture_def ps example_config_def empty_world_def)
  have tok: "getAccessToken example_env (dingtalkConfig ?ps) empty_world
               = (Inr (u16 ''tok''), token_world)"
    using example_token(1) by (simp add: ps)
  have dl: "downloadMedia example_env (dingtalkConfig ?ps) (c_mediaPath picture_content)
              empty_world = (Inr None, failed_download_world)"
    using example_download_fails by (simp add: ps picture_content_def)
  have "returns (\<lambda>args. True)
          (prepare example_env ?ps picture_content (sender_of (data ?ps)) None None)"
    by (rule prepare_returns)
       (simp_all add: example_host_obj ps picture_sender picture_content_def)
  then obtain args w2 where pr:
    "prepare example_env ?ps picture_content (sender_of (data ?ps)) None None
       failed_download_world = (Inr args, w2)"
    unfolding returns_def by blast
  note T = download_failure_not_fatal [of example_env example_config "JStr (u16 ''code1'')"
      empty_world ?ps picture_content]
  from T conds have H: "(\<forall>token w0. getAccessToken example_env (dingtalkConfig ?ps) empty_world
             = (Inr token, w0) \<longrightarrow>
           filter is_download (new_events empty_world (snd (handleDingTalkMessage example_env ?ps
              empty_world)))
             = [DownloadRequest (c_mediaPath picture_content) (robotCode (dingtalkConfig ?ps)) token])
        \<and> (\<forall>w1 args w2.
              downloadMedia example_env (dingtalkConfig ?ps) (c_mediaPath picture_content)
                 empty_world = (Inr None, w1)
              \<and> prepare example_env ?ps picture_content (sender_of (data ?ps)) None None w1
                   = (Inr args, w2) \<longrightarrow>
              list_ex (\<lambda>e. \<exists>fields. e = Host FinalizeInboundContext fields
                         \<and> opt_get fields (u16 ''MediaPath'') = JUndefined) (new_events w1 w2)
              \<and> list_all (\<lambda>e. \<forall>fields. e = Host FinalizeInboundContext fields
                         \<longrightarrow> opt_get fields (u16 ''MediaPath'') = JUndefined) (new_events w1 w2)
              \<and> Host DispatchReplyFromConfig args
                   \<in> set (new_events w2 (snd (handleDingTalkMessage example_env ?ps
                         empty_world))))"
    by blast
  have a: "filter is_download (new_events empty_world (snd (handleDingTalkMessage example_env ?ps
              empty_world)))
             = [DownloadRequest (JStr (u16 ''code1'')) (JStr (u16 ''robot'')) (u16 ''tok'')]"
    using H tok by (simp add: picture_content_def ps example_config_def)
  have b: "list_ex (\<lambda>e. \<exists>fields. e = Host FinalizeInboundContext fields
                         \<and> opt_get fields (u16 ''MediaPath'') = JUndefined)
             (new_events failed_download_world w2)
           \<and> Host DispatchReplyFromConfig args
                \<in> set (new_events w2 (snd (handleDingTalkMessage example_env ?ps empty_world)))"
    using H dl pr by blast
  have "\<forall>token w0. getAccessToken example_env example_config empty_world = (Inr token, w0) \<longrightarrow>
         (case post_download example_env (tick w0) (JStr (u16 ''code1'')) (robotCode example_config)
                 token of
            Inl e \<Rightarrow> fst (downloadMedia example_env example_config (JStr (u16 ''code1''))
                          empty_world) = Inr None
          | Inr response_data \<Rightarrow>
              \<not> truthy (opt_get response_data (u16 ''downloadUrl'')) \<longrightarrow>
              fst (downloadMedia example_env example_config (JStr (u16 ''code1''))
                     empty_world) = Inr None)"
    using T by blast
  then have c: "fst (downloadMedia example_env example_config (JStr (u16 ''code1'')) empty_world)
             = Inr None"
    using example_token(1) by (auto simp: example_env_def)
  have "fst (downloadMedia example_env example_config (JStr (u16 ''code1'')) empty_world) = Inr None
   \<and> filter is_download
         (new_events empty_world
            (snd (handleDingTalkMessage example_env (example_params picture_event) empty_world)))
       = [DownloadRequest (JStr (u16 ''code1'')) (JStr (u16 ''robot'')) (u16 ''tok'')]
   \<and> (\<exists>args w2.
         prepare example_env (example_params picture_event) picture_content
           (sender_of picture_event) None None failed_download_world = (Inr args, w2)
         \<and> list_ex (\<lambda>e. \<exists>fields. e = Host FinalizeInboundContext fields
                        \<and> opt_get fields (u16 ''MediaPath'') = JUndefined)
               (new_events failed_download_world w2)
         \<and> Host DispatchReplyFromConfig args
              \<in> set (new_events w2
                    (snd (handleDingTalkMessage example_env (example_params picture_event)
                            empty_world))))"
    using a b c pr by (auto simp: ps)
  then show ?thesis using g v by simp
qed


section \<open>Properties of the stream listener\<close>

lemma emits_mono:
  assumes "emits P m" and "\<And>e. P e \<Longrightarrow> Q e"
  shows "emits Q m"
  using assms unfolding emits_def list_all_iff by metis

lemma emits_getRuntime [intro!, simp]: "emits P getRuntime"
  by (simp add: emits_def getRuntime_def)

lemma emits_downloadMedia:
  assumes "\<And>a b. P (TokenRequest a b)" and "\<And>a b t. P (DownloadRequest a b t)"
    and "\<And>u. P (MediaGet u)" and "\<And>p. P (WriteFile p)"
  shows "emits P (downloadMedia E c code)"
  unfolding downloadMedia_def downloadMedia_try_def Let_def using assms
  by (intro emits_try_catch emits_bindA emits_getAccessToken emits_call emits_if emits_ret
      emits_now)

lemma emits_handler: "emits (\<lambda>e. \<not> is_ack e) (handleDingTalkMessage E ps)"
proof -
  have a: "emits (\<lambda>e. \<not> is_ack e) (after_download E ps content media)" for content media
    by (rule emits_mono [OF emits_after_download]) (case_tac e; simp)
  show ?thesis
    unfolding handleDingTalkMessage_def
    by (intro emits_bindA emits_getRuntime emits_lift emits_if emits_ret emits_downloadMedia a)
       simp_all
qed

lemma emits_frame_handling: "emits (\<lambda>e. \<not> is_ack e) (frame_handling E c a l dc res)"
  unfolding frame_handling_def
  by (intro emits_bindA emits_lift emits_handler)

lemma listener_run:
  assumes "truthy (messageId res)" and "frame_handling E c a l dc res w = (r, w1)"
  shows "listener E c a l dc res w =
           (Inr (), w1\<lparr>trace := trace w1 @ [Ack (messageId res) (case r of Inl e \<Rightarrow> False
                                                                    | Inr u \<Rightarrow> True)],
                        tick := Suc (tick w1)\<rparr>)"
  using assms
  by (cases r) (simp_all add: listener_def try_catch_def bindA_def socketCallBackResponse_def
      call_def)

lemma listener_silent:
  assumes "\<not> truthy (messageId res)"
  shows "listener E c a l dc res w = (Inr (), snd (frame_handling E c a l dc res w))"
  using assms
  by (cases "frame_handling E c a l dc res w"; cases "fst (frame_handling E c a l dc res w)")
     (simp_all add: listener_def try_catch_def bindA_def ret_def)

lemma listener_returns: "fst (listener E c a l dc res w) = Inr ()"
  by (auto simp: listener_def try_catch_def bindA_def socketCallBackResponse_def call_def ret_def
      split: sum.splits prod.splits)

lemma listen_returns: "fst (listen (listener E c a l dc) frames w) = Inr ()"
proof (induction frames arbitrary: w)
  case Nil
  then show ?case by (simp add: ret_def)
next
  case (Cons f fs)
  obtain w1 where "listener E c a l dc f w = (Inr (), w1)"
    using listener_returns [of E c a l dc f w] by (cases "listener E c a l dc f w") auto
  then show ?case using Cons by (simp add: bindA_Inr)
qed

lemma listen_next:
  "listen (listener E c a l dc) (res # frames) w
     = listen (listener E c a l dc) frames (snd (listener E c a l dc res w))"
proof -
  obtain w1 where "listener E c a l dc res w = (Inr (), w1)"
    using listener_returns [of E c a l dc res w] by (cases "listener E c a l dc res w") auto
  then show ?thesis by (simp add: bindA_Inr)
qed

text \<open>
  C8, as the code has it. For a frame that carries a message id, the listener sends
  exactly one acknowledgment for that id, negative when the handling of the frame
  threw and positive when it returned; a frame whose body does not parse is
  acknowledged negatively at once. Whatever the frame, the callback itself returns
  normally, so a list of frames is worked through to its end, each frame starting
  from the state the one before it left. A frame without a message id is handled but
  never acknowledged.
\<close>

theorem listener_acknowledges:
  "(truthy (messageId res) \<longrightarrow>
      filter is_ack (new_events w (snd (listener E c a l dc res w)))
        = [Ack (messageId res) (case fst (frame_handling E c a l dc res w) of
                                  Inl e \<Rightarrow> False | Inr u \<Rightarrow> True)])
   \<and> (truthy (messageId res) \<longrightarrow>
        (\<forall>e. parsed res = Inl e \<longrightarrow>
           listener E c a l dc res w
             = (Inr (), w\<lparr>trace := trace w @ [Ack (messageId res) False],
                           tick := Suc (tick w)\<rparr>)))
   \<and> (\<not> truthy (messageId res) \<longrightarrow>
        listener E c a l dc res w = (Inr (), snd (frame_handling E c a l dc res w))
        \<and> filter is_ack (new_events w (snd (listener E c a l dc res w))) = [])
   \<and> fst (listener E c a l dc res w) = Inr ()
   \<and> fst (listen (listener E c a l dc) (res # frames) w) = Inr ()
   \<and> listen (listener E c a l dc) (res # frames) w
       = listen (listener E c a l dc) frames (snd (listener E c a l dc res w))"
proof -
  have 3: "listener E c a l dc res w = (Inr (), snd (frame_handling E c a l dc res w))
        \<and> filter is_ack (new_events w (snd (listener E c a l dc res w))) = []"
    if t: "\<not> truthy (messageId res)"
  proof -
    obtain r w1 where h: "frame_handling E c a l dc res w = (r, w1)"
      by (cases "frame_handling E c a l dc res w")
    obtain es where es: "trace w1 = trace w @ es" "list_all (\<lambda>e. \<not> is_ack e) es"
      using emitsD [OF emits_frame_handling, of E c a l dc res w] h by auto
    have f: "filter is_ack es = []" using es(2) by (auto simp: list_all_iff filter_empty_conv)
    have "listener E c a l dc res w = (Inr (), w1)"
      using listener_silent [OF t, of E c a l dc w] h by simp
    then show ?thesis
      using h es(1) f by (simp add: new_events_def)
  qed
  have 1: "filter is_ack (new_events w (snd (listener E c a l dc res w)))
        = [Ack (messageId res) (case fst (frame_handling E c a l dc res w) of
                                  Inl e \<Rightarrow> False | Inr u \<Rightarrow> True)]"
    if t: "truthy (messageId res)"
  proof -
    obtain r w1 where h: "frame_handling E c a l dc res w = (r, w1)"
      by (cases "frame_handling E c a l dc res w")
    obtain es where es: "trace w1 = trace w @ es" "list_all (\<lambda>e. \<not> is_ack e) es"
      using emitsD [OF emits_frame_handling, of E c a l dc res w] h by auto
    have "filter is_ack es = []" using es(2) by (auto simp: list_all_iff filter_empty_conv)
    then show ?thesis
      using listener_run [OF t h] h es(1) by (simp add: new_events_def)
  qed
  have 2: "listener E c a l dc res w
             = (Inr (), w\<lparr>trace := trace w @ [Ack (messageId res) False], tick := Suc (tick w)\<rparr>)"
    if t: "truthy (messageId res)" and p: "parsed res = Inl e" for e
  proof -
    have "frame_handling E c a l dc res w = (Inl e, w)"
      using p by (simp add: frame_handling_def throw_def)
    from listener_run [OF t this] show ?thesis by simp
  qed
  show ?thesis
    using 1 2 3 listener_returns [of E c a l dc res w]
      listen_returns [of E c a l dc "res # frames" w] listen_next [of E c a l dc res frames w]
    by blast
qed

theorem listener_acknowledges_witness:
  "listener example_env (JObj []) (JStr (u16 ''default'')) True example_config malformed_frame
     empty_world
   = (Inr (), empty_world\<lparr>trace := [Ack (JStr (u16 ''m1'')) False], tick := 1\<rparr>)
   \<and> filter is_ack
         (new_events empty_world
            (snd (listener example_env (JObj []) (JStr (u16 ''default'')) True example_config
                    anonymous_frame empty_world))) = []"
proof -
  have t: "truthy (messageId malformed_frame)" by (simp add: malformed_frame_def)
  have p: "parsed malformed_frame = Inl SyntaxError" by (simp add: malformed_frame_def)
  have n: "\<not> truthy (messageId anonymous_frame)" by (simp add: anonymous_frame_def)
  have a: "listener example_env (JObj []) (JStr (u16 ''default'')) True example_config
             malformed_frame empty_world
           = (Inr (), empty_world\<lparr>trace := [Ack (JStr (u16 ''m1'')) False], tick := 1\<rparr>)"
    using listener_acknowledges [of malformed_frame empty_world example_env "JObj []"
        "JStr (u16 ''default'')" True example_config "[]"] t p
    by (simp add: malformed_frame_def empty_world_def)
  have b: "filter is_ack
         (new_events empty_world
            (snd (listener example_env (JObj []) (JStr (u16 ''default'')) True example_config
                    anonymous_frame empty_world))) = []"
    using listener_acknowledges [of anonymous_frame empty_world example_env "JObj []"
        "JStr (u16 ''default'')" True example_config "[]"] n
    by blast
  show ?thesis using a b by (rule conjI)
qed

text \<open>
  The claim as stated fails on a frame without a message id: the body does not parse,
  so the handling throws, and no acknowledgment is sent at all.
\<close>

theorem listener_no_messageId_counterexample:
  "fst (frame_handling example_env (JObj []) (JStr (u16 ''default'')) True example_config
          anonymous_frame empty_world) = Inl SyntaxError
   \<and> listener example_env (JObj []) (JStr (u16 ''default'')) True example_config anonymous_frame
       empty_world = (Inr (), empty_world)"
  by (simp add: listener_def frame_handling_def try_catch_def bindA_def anonymous_frame_def
      lift_def ret_def)

section \<open>The classification on the reply path\<close>

lemma deliver_text_reply:
  assumes "t \<noteq> []"
  shows "deliver E c hook d sid (JObj [(u16 ''text'', JStr t)]) =
           try_catch
             (bindA (sendMessage E c hook (JStr t)
                       \<lparr>atUserId = (if \<not> d then sid else JNull),
                        useMarkdown = JBool (markdown_regex t), title = JUndefined\<rparr>)
                (\<lambda>u. ret True))
             (\<lambda>err. ret False)"
  using assms by (simp add: deliver_def regex_test_def)

lemma deliver_text_reply_kind:
  assumes "t \<noteq> []"
  shows "deliver E c hook d sid (JObj [(u16 ''text'', JStr t)]) =
           try_catch
             (bindA (if markdown_regex t
                     then sendMarkdownMessage E c hook
                            (markdown_title \<lparr>atUserId = (if \<not> d then sid else JNull),
                               useMarkdown = JBool True, title = JUndefined\<rparr> t) (JStr t)
                            \<lparr>atUserId = (if \<not> d then sid else JNull),
                             useMarkdown = JBool True, title = JUndefined\<rparr>
                     else sendTextMessage E c hook (JStr t)
                            \<lparr>atUserId = (if \<not> d then sid else JNull),
                             useMarkdown = JBool False, title = JUndefined\<rparr>)
                (\<lambda>u. ret True))
             (\<lambda>err. ret False)"
  using assms by (simp add: deliver_text_reply sendMessage_string)

text \<open>
  C4. On the reply path the classification is made by the delivery callback, which
  tests the payload's \<open>markdown\<close> field and the marker pattern but not the newline,
  and hands \<open>sendMessage\<close> the result as an explicit flag. A reply whose only field is
  the text \<open>line one\<close>, a newline, \<open>line two\<close> is therefore posted with
  \<open>msgtype\<close> \<open>text\<close>, while \<open>sendMessage\<close> called on the same text without a flag
  posts it with \<open>msgtype\<close> \<open>markdown\<close> and the title \<open>line one\<close>.
\<close>

theorem reply_with_newline_sent_as_text:
  "trace (snd (deliver example_env example_config example_hook True JNull newline_reply
                 empty_world))
     = [TokenRequest (JStr (u16 ''id'')) (JStr (u16 ''secret'')),
        WebhookPost example_hook
          (JObj [(u16 ''msgtype'', JStr (u16 ''text'')),
                 (u16 ''text'', JObj [(u16 ''content'', JStr two_lines)])])
          (u16 ''tok'')]
   \<and> trace (snd (sendMessage example_env example_config example_hook (JStr two_lines)
                   no_options empty_world))
     = [TokenRequest (JStr (u16 ''id'')) (JStr (u16 ''secret'')),
        WebhookPost example_hook
          (JObj [(u16 ''msgtype'', JStr (u16 ''markdown'')),
                 (u16 ''markdown'', JObj [(u16 ''title'', JStr (u16 ''line one'')),
                                           (u16 ''text'', JStr two_lines)])])
          (u16 ''tok'')]"
proof -
  have n: "two_lines \<noteq> []" by (simp add: two_lines_def)
  have r: "\<not> markdown_regex two_lines"
    by (simp add: markdown_regex_def leading_marker_def inline_marker_def two_lines_def u16_def)
  have f: "markdown_features two_lines"
    by (simp add: markdown_features_def two_lines_def)
  have t: "markdown_title no_options two_lines = JStr (u16 ''line one'')"
    by (simp add: markdown_title_def no_options_def stripped_first_line_def two_lines_def u16_def
        title_marker_def is_space_def)
  have a: "\<not> truthy (atUserId no_options)" by (simp add: no_options_def)
  have 1: "trace (snd (deliver example_env example_config example_hook True JNull newline_reply
                 empty_world))
     = [TokenRequest (JStr (u16 ''id'')) (JStr (u16 ''secret'')),
        WebhookPost example_hook
          (JObj [(u16 ''msgtype'', JStr (u16 ''text'')),
                 (u16 ''text'', JObj [(u16 ''content'', JStr two_lines)])])
          (u16 ''tok'')]"
    unfolding newline_reply_def
    by (simp add: deliver_text_reply_kind [OF n] r try_catch_def bindA_def ret_def
        sendTextMessage_run [OF example_token(1)] Let_def token_world_def)
       (simp add: example_env_def)
  have 2: "trace (snd (sendMessage example_env example_config example_hook (JStr two_lines)
                   no_options empty_world))
     = [TokenRequest (JStr (u16 ''id'')) (JStr (u16 ''secret'')),
        WebhookPost example_hook
          (JObj [(u16 ''msgtype'', JStr (u16 ''markdown'')),
                 (u16 ''markdown'', JObj [(u16 ''title'', JStr (u16 ''line one'')),
                                           (u16 ''text'', JStr two_lines)])])
          (u16 ''tok'')]"
  proof -
    have u: "useMarkdown no_options \<noteq> JBool False" by (simp add: no_options_def)
    show ?thesis
      using f u
      by (simp add: sendMessage_string t sendMarkdownMessage_run [OF example_token(1) a] Let_def
          token_world_def js_or_def)
  qed
  show ?thesis using 1 2 by simp
qed

section \<open>The temp file when a host call throws before the dispatch\<close>

lemma handler_throws_before_dispatch:
  assumes "runtime w"
    and "extractMessageContent (data ps) = Inr content" and "truthy (c_text content)"
    and "truthy (c_mediaPath content)" and "truthy (robotCode (dingtalkConfig ps))"
    and "downloadMedia E (dingtalkConfig ps) (c_mediaPath content) w = (Inr media, w1)"
    and "prepare E ps content (sender_of (data ps)) (map_option path media)
           (map_option mimeType media) w1 = (Inl e, w2)"
  shows "handleDingTalkMessage E ps w = (Inl e, w2)"
  using assms
  by (simp add: handler_with_media after_download_def bindA_Inr bindA_Inl)

lemma prepare_no_route:
  assumes "host_call E (tick w) ResolveAgentRoute
             (JObj [(u16 ''cfg'', cfg ps), (u16 ''channel'', JStr (u16 ''dingtalk'')),
                    (u16 ''accountId'', accountId ps),
                    (u16 ''peer'',
                     JObj [(u16 ''kind'', JStr (if isDirect s then u16 ''dm'' else u16 ''group'')),
                           (u16 ''id'', if isDirect s then senderId s else groupId s)])]) = Inl e"
  shows "prepare E ps content s mp mt w =
           (Inl e, w\<lparr>trace := trace w @ [Host ResolveAgentRoute
             (JObj [(u16 ''cfg'', cfg ps), (u16 ''channel'', JStr (u16 ''dingtalk'')),
                    (u16 ''accountId'', accountId ps),
                    (u16 ''peer'',
                     JObj [(u16 ''kind'', JStr (if isDirect s then u16 ''dm'' else u16 ''group'')),
                           (u16 ''id'', if isDirect s then senderId s else groupId s)])])],
               tick := Suc (tick w)\<rparr>)"
  unfolding prepare_def Let_def
  by (rule bindA_Inl) (simp add: host_def call_def assms)

lemma routing_fails_download:
  "downloadMedia routing_fails_env example_config (JStr (u16 ''code1'')) empty_world
     = (Inr (Some downloaded_file), downloaded_world)"
  by (simp add: downloadMedia_def downloadMedia_try_def try_catch_def bindA_def ret_def call_def
      now_def Let_def getAccessToken_def download_ok_env_def example_env_def example_config_def
      empty_world_def downloaded_world_def downloaded_file_def extension_def time_to_string_def
      content_type_of_def routing_fails_env_def)
     (simp add: u16_def)

text \<open>
  C9. The download comes before the \<open>try\<close> whose \<open>finally\<close> deletes the temp file,
  and so do the host calls of steps 3 to 6. For a picture event whose download
  succeeds, with a host whose \<open>resolveAgentRoute\<close> throws, the handler throws that
  exception right after the call: the temp file has been written, the dispatcher is
  not marked idle, and neither \<open>existsSync\<close> nor \<open>unlinkSync\<close> is called, so the file
  stays on disk.
\<close>

theorem temp_file_left_when_routing_fails:
  "handleDingTalkMessage routing_fails_env (example_params picture_event) empty_world
     = (Inl (Error (u16 ''no route'')),
        downloaded_world
          \<lparr>trace := [TokenRequest (JStr (u16 ''id'')) (JStr (u16 ''secret'')),
                     DownloadRequest (JStr (u16 ''code1'')) (JStr (u16 ''robot'')) (u16 ''tok''),
                     MediaGet (JStr (u16 ''https://file'')),
                     WriteFile (u16 ''/tmp/dingtalk_1000004.png''),
                     Host ResolveAgentRoute
                       (JObj [(u16 ''cfg'', JObj []), (u16 ''channel'', JStr (u16 ''dingtalk'')),
                              (u16 ''accountId'', JStr (u16 ''default'')),
                              (u16 ''peer'', JObj [(u16 ''kind'', JStr (u16 ''group'')),
                                                   (u16 ''id'', JStr (u16 ''cid1''))])])],
            tick := 7\<rparr>)"
proof -
  let ?ps = "example_params picture_event"
  have ps: "data ?ps = picture_event" "dingtalkConfig ?ps = example_config"
    "cfg ?ps = JObj []" "accountId ?ps = JStr (u16 ''default'')"
    by (simp_all add: example_params_def)
  have 1: "runtime empty_world" by (simp add: empty_world_def)
  have 3: "truthy (c_text picture_content)" "truthy (c_mediaPath picture_content)"
    "truthy (robotCode (dingtalkConfig ?ps))"
    by (simp_all add: picture_content_def label_picture_def ps example_config_def)
  have 4: "downloadMedia routing_fails_env (dingtalkConfig ?ps) (c_mediaPath picture_content)
             empty_world = (Inr (Some downloaded_file), downloaded_world)"
    using routing_fails_download by (simp add: ps picture_content_def)
  have s: "isDirect (sender_of picture_event) = False"
    "groupId (sender_of picture_event) = JStr (u16 ''cid1'')"
    by (simp_all add: sender_of_def picture_event_def)
  have 5: "prepare routing_fails_env ?ps picture_content (sender_of (data ?ps))
             (map_option path (Some downloaded_file)) (map_option mimeType (Some downloaded_file))
             downloaded_world
           = (Inl (Error (u16 ''no route'')),
              downloaded_world\<lparr>trace := trace downloaded_world @ [Host ResolveAgentRoute
                (JObj [(u16 ''cfg'', JObj []), (u16 ''channel'', JStr (u16 ''dingtalk'')),
                       (u16 ''accountId'', JStr (u16 ''default'')),
                       (u16 ''peer'', JObj [(u16 ''kind'', JStr (u16 ''group'')),
                                            (u16 ''id'', JStr (u16 ''cid1''))])])],
                tick := Suc (tick downloaded_world)\<rparr>)"
    using prepare_no_route [of routing_fails_env downloaded_world ?ps "sender_of picture_event"
        "Error (u16 ''no route'')" picture_content]
    by (simp add: routing_fails_env_def ps s)
  show ?thesis
    using handler_throws_before_dispatch [OF 1 picture_decoded 3 4 5]
    by (simp add: downloaded_world_def)
qed

end
